theory Spec2Isabelle
  imports Main "HOL-Library.Multiset"
begin

unbundle bit_operations_syntax

section \<open>Data model of the token service\<close>

text \<open>
  The embedding follows \<^verbatim>\<open>authorization/token/service/token_service.go\<close>.
  Identifiers of type \<^verbatim>\<open>uuid.UUID\<close> are natural numbers, \<^verbatim>\<open>uuid.Nil\<close> being zero.
  A \<^verbatim>\<open>time.Time\<close> is the number of nanoseconds since the epoch, so that
  \<^verbatim>\<open>After\<close> compares at full precision while \<^verbatim>\<open>Unix()\<close> truncates to seconds.
\<close>

type_synonym uuid = nat

type_synonym time = int

definition uuid_Nil :: uuid where
  "uuid_Nil = 0"

definition Unix :: "time \<Rightarrow> int" where
  "Unix t = t div 1000000000"

definition time_Unix :: "int \<Rightarrow> time" where
  "time_Unix sec = sec * 1000000000"

definition After :: "time \<Rightarrow> time \<Rightarrow> bool" where
  "After t u = (u < t)"

subsection \<open>Errors\<close>

text \<open>
  Modelled from the spec: the package \<^verbatim>\<open>errors\<close> is not part of the sources at hand.
  The taxonomy (BadParameter, Unauthorized with coded variants, Internal, NotFound) is the
  one of section 7 of the specification; the two codes used by the token service are
  distinct values.  \<open>UnauthorizedErrorOf e\<close> stands for
  \<^verbatim>\<open>errors.NewUnauthorizedError(e.Error())\<close>, \<open>InternalError e\<close> for
  \<^verbatim>\<open>errors.NewInternalError(e)\<close>.
\<close>

datatype unauthorized_code =
    UNAUTHORIZED_CODE_TOKEN_DEPROVISIONED
  | UNAUTHORIZED_CODE_TOKEN_REVOKED

datatype error =
    NotFoundError string
  | BadParameterError string string string
  | UnauthorizedError string
  | UnauthorizedErrorOf error
  | UnauthorizedErrorWithCode string unauthorized_code
  | InternalError error
  | OtherError string

fun IsUnauthorizedError :: "error \<Rightarrow> bool" where
  "IsUnauthorizedError (UnauthorizedError m) = True"
| "IsUnauthorizedError (UnauthorizedErrorOf e) = True"
| "IsUnauthorizedError (UnauthorizedErrorWithCode m c) = True"
| "IsUnauthorizedError e = False"

text \<open>
  A Go call either returns its value, returns an error, or panics (a failed type assertion,
  a nil dereference).
\<close>

datatype 'a outcome = Returns 'a | Fails error | Panics

subsection \<open>Scope comparison\<close>

text \<open>
  \<^verbatim>\<open>scopesEquivalent\<close>, lines 858 to 878: equal lengths, and every element of the first
  slice is found by a linear scan of the second.
\<close>

fun scope_found :: "string \<Rightarrow> string list \<Rightarrow> bool" where
  "scope_found val1 [] = False"
| "scope_found val1 (val2 # rest) = (if val1 = val2 then True else scope_found val1 rest)"

fun scopes_all_found :: "string list \<Rightarrow> string list \<Rightarrow> bool" where
  "scopes_all_found [] value2 = True"
| "scopes_all_found (val1 # rest) value2 =
     (if \<not> scope_found val1 value2 then False else scopes_all_found rest value2)"

definition scopesEquivalent :: "string list \<Rightarrow> string list \<Rightarrow> bool" where
  "scopesEquivalent value1 value2 =
     (if length value1 \<noteq> length value2 then False else scopes_all_found value1 value2)"

subsection \<open>Records\<close>

text \<open>
  Modelled from the spec: the declarations of the token status flags, of
  \<^verbatim>\<open>Token.Valid\<close> and \<^verbatim>\<open>Token.HasStatus\<close>, and of the token types live in packages
  that are not among the sources at hand.  The status is an integer bitmask whose flags are
  independent bits (sections 3, 4.1 and 9 of the specification), \<open>Valid\<close> holds iff the
  status is 0, and a flag is present iff all of its bits are set.  The proofs use of the
  four values only that they are distinct single bits.
\<close>

definition TOKEN_STATUS_DEPROVISIONED :: int where
  "TOKEN_STATUS_DEPROVISIONED = 1"

definition TOKEN_STATUS_REVOKED :: int where
  "TOKEN_STATUS_REVOKED = 2"

definition TOKEN_STATUS_LOGGED_OUT :: int where
  "TOKEN_STATUS_LOGGED_OUT = 4"

definition TOKEN_STATUS_STALE :: int where
  "TOKEN_STATUS_STALE = 8"

datatype token_type = TOKEN_TYPE_ACCESS | TOKEN_TYPE_REFRESH | TOKEN_TYPE_RPT

record Token =
  TokenID :: uuid
  IdentityID :: uuid
  Status :: int
  TokenType :: token_type
  TokenExpiryTime :: time

definition Valid :: "Token \<Rightarrow> bool" where
  "Valid m = (Status m = 0)"

definition HasStatus :: "Token \<Rightarrow> int \<Rightarrow> bool" where
  "HasStatus m status = (Status m AND status = status)"

text \<open>
  \<^verbatim>\<open>accountrepo.Identity\<close> with the embedded user record, as far as the service reads it.
\<close>

record User =
  Banned :: bool

record Identity =
  ID :: uuid
  Username :: string
  User :: User

text \<open>
  A row returned by \<^verbatim>\<open>ListPrivileges\<close> or \<^verbatim>\<open>CachedPrivileges\<close>.  The field
  \<open>ScopesAsArray\<close> holds what the method of that name returns.
\<close>

record PrivilegeCache =
  PrivilegeCacheID :: uuid
  ResourceID :: string
  ScopesAsArray :: "string list"
  ExpiryTime :: time
  Stale :: bool

text \<open>
  \<^verbatim>\<open>manager.Permissions\<close>.  The service builds every \<^verbatim>\<open>ResourceSetID\<close> from the address of
  a string, so the pointer is never nil in a token it minted; the field is the string.
\<close>

record Permissions =
  ResourceSetID :: string
  Scopes :: "string list"
  Expiry :: int

record TokenPrivilege =
  PrivTokenID :: uuid
  PrivPrivilegeCacheID :: uuid

text \<open>
  The claims \<^verbatim>\<open>ParseToken\<close> returns: \<^verbatim>\<open>Id\<close>, \<^verbatim>\<open>ExpiresAt\<close> and the pointer
  \<^verbatim>\<open>Permissions\<close>, which is \<open>None\<close> when nil.
\<close>

record TokenClaims =
  ClaimsId :: string
  ExpiresAt :: int
  ClaimsPermissions :: "Permissions list option"

text \<open>
  A value of \<^verbatim>\<open>jwt.MapClaims\<close> is a string or something else; for the latter the
  payload is the text that \<^verbatim>\<open>fmt.Sprintf("%s", v)\<close> prints.  A missing key and a nil value
  are both \<open>None\<close>.
\<close>

datatype claim_value = StringClaim string | NonStringClaim string

fun Sprintf_s :: "claim_value \<Rightarrow> string" where
  "Sprintf_s (StringClaim s) = s"
| "Sprintf_s (NonStringClaim s) = s"

record jwt_Token =
  Raw :: string
  Claims :: "string \<Rightarrow> claim_value option"

record oauth2_Token =
  AccessToken :: string
  RefreshToken :: string

record TokenSet =
  SetAccessToken :: string
  SetRefreshToken :: string

subsection \<open>Collaborators\<close>

text \<open>
  The repositories, the privilege cache, the token manager, the configuration and the
  library calls the service relies on, as the answers they give.  A Go \<^verbatim>\<open>error\<close> result is
  \<open>None\<close> when nil; a result \<^verbatim>\<open>(value, error)\<close> is a sum with the error on the left.
  \<open>sort_Slice\<close> is \<^verbatim>\<open>sort.Slice\<close> with its comparison function.
\<close>

record env =
  CheckExists :: "string \<Rightarrow> error option"
  ReadTokenManagerFromContext :: "error option"
  ParseToken :: "string \<Rightarrow> error + TokenClaims"
  FromString :: "string \<Rightarrow> error + uuid"
  Load :: "uuid \<Rightarrow> error + Token"
  Save :: "Token \<Rightarrow> error option"
  Create :: "Token \<Rightarrow> error option"
  ListPrivileges :: "uuid \<Rightarrow> error + PrivilegeCache list"
  CreatePrivilege :: "TokenPrivilege \<Rightarrow> error option"
  CachedPrivileges :: "uuid \<Rightarrow> string \<Rightarrow> error + PrivilegeCache"
  GetRPTTokenMaxPermissions :: int
  sort_Slice :: "(PrivilegeCache \<Rightarrow> PrivilegeCache \<Rightarrow> bool) \<Rightarrow> PrivilegeCache list \<Rightarrow> PrivilegeCache list"
  GenerateUnsignedRPTTokenForIdentity :: "TokenClaims \<Rightarrow> Identity \<Rightarrow> Permissions list \<Rightarrow> error + jwt_Token"
  SignRPTToken :: "jwt_Token \<Rightarrow> error + string"
  Parse :: "string \<Rightarrow> error + jwt_Token"
  LoadWithUser :: "uuid \<Rightarrow> error + Identity"
  TouchLastActive :: "uuid \<Rightarrow> error option"
  GenerateUserTokenUsingRefreshToken :: "string \<Rightarrow> Identity option \<Rightarrow> Permissions list \<Rightarrow> error + oauth2_Token"
  ConvertToken :: "oauth2_Token \<Rightarrow> error + TokenSet"

text \<open>
  The calls with an effect outside the service, in the order they are issued.  A call is
  recorded whether or not it succeeds.
\<close>

datatype event =
    SaveToken Token
  | CreateToken Token
  | CreateTokenPrivilege TokenPrivilege
  | GenerateRPT TokenClaims Identity "Permissions list"
  | SignRPT jwt_Token
  | GenerateUserToken string "Identity option" "Permissions list"
  | TouchIdentity uuid

text \<open>
  \<^verbatim>\<open>strconv.ParseBool\<close>: the strings the Go library accepts.
\<close>

definition ParseBool :: "string \<Rightarrow> error + bool" where
  "ParseBool str =
     (if str \<in> set [''1'', ''t'', ''T'', ''TRUE'', ''true'', ''True''] then Inr True
      else if str \<in> set [''0'', ''f'', ''F'', ''FALSE'', ''false'', ''False''] then Inr False
      else Inl (OtherError ''invalid syntax''))"

section \<open>Operations\<close>

subsection \<open>ValidateToken\<close>

text \<open>
  Lines 762 to 820.  The type assertions on \<^verbatim>\<open>jti\<close>, \<^verbatim>\<open>transient\<close> and
  \<^verbatim>\<open>sub\<close> panic on a value that is not a string.  A failed \<^verbatim>\<open>ParseBool\<close> is logged
  and leaves \<^verbatim>\<open>transient\<close> false.
\<close>

definition ValidateToken_touch :: "env \<Rightarrow> jwt_Token \<Rightarrow> unit outcome \<times> event list" where
  "ValidateToken_touch e accessToken =
     (case Claims accessToken ''sub'' of
        Some (StringClaim sub) \<Rightarrow>
          (case FromString e sub of
             Inl err \<Rightarrow>
               (Fails (BadParameterError ''token'' (Raw accessToken)
                  ''could not extract identity ID from token''), [])
           | Inr identityID \<Rightarrow>
               (case TouchLastActive e identityID of
                  Some err \<Rightarrow> (Fails (InternalError err), [TouchIdentity identityID])
                | None \<Rightarrow> (Returns (), [TouchIdentity identityID])))
      | _ \<Rightarrow> (Panics, []))"

definition ValidateToken :: "env \<Rightarrow> jwt_Token \<Rightarrow> unit outcome \<times> event list" where
  "ValidateToken e accessToken =
     (case Claims accessToken ''jti'' of
        Some (StringClaim jti) \<Rightarrow>
          (case FromString e jti of
             Inl err \<Rightarrow>
               (Fails (BadParameterError ''token'' (Raw accessToken)
                  ''could not extract token ID from token''), [])
           | Inr tokenID \<Rightarrow>
               (case Load e tokenID of
                  Inl err \<Rightarrow> (Fails err, [])
                | Inr tkn \<Rightarrow>
                    if \<not> Valid tkn then (Fails (UnauthorizedError ''invalid token''), [])
                    else
                      (case Claims accessToken ''transient'' of
                         None \<Rightarrow> ValidateToken_touch e accessToken
                       | Some (NonStringClaim v) \<Rightarrow> (Panics, [])
                       | Some (StringClaim transClaim) \<Rightarrow>
                           (case ParseBool transClaim of
                              Inl err \<Rightarrow> ValidateToken_touch e accessToken
                            | Inr transient \<Rightarrow>
                                if \<not> transient then ValidateToken_touch e accessToken
                                else (Returns (), [])))))
      | _ \<Rightarrow> (Panics, []))"

subsection \<open>RegisterToken\<close>

text \<open>
  Lines 512 to 568.  \<open>create_privileges\<close> is the loop that stamps each privilege with the
  token id and persists it, stopping at the first error.  Every error of the transaction is
  wrapped as an internal error.

  Modelled from the spec: \<^verbatim>\<open>ExecuteInTransaction\<close> belongs to the base service, which is
  not among the sources at hand.  It runs its body and hands the body's error back
  unchanged (section 7 of the specification); the writes of a failed body are rolled back
  by the database, while the trace keeps the calls that were issued.
\<close>

fun create_privileges ::
  "env \<Rightarrow> uuid \<Rightarrow> TokenPrivilege list \<Rightarrow> error option \<times> event list" where
  "create_privileges e tokenID [] = (None, [])"
| "create_privileges e tokenID (tokenPriv # rest) =
     (let stamped = tokenPriv\<lparr>PrivTokenID := tokenID\<rparr> in
      case CreatePrivilege e stamped of
        Some err \<Rightarrow> (Some err, [CreateTokenPrivilege stamped])
      | None \<Rightarrow>
          (case create_privileges e tokenID rest of
             (r, evs) \<Rightarrow> (r, CreateTokenPrivilege stamped # evs)))"

definition RegisterToken ::
  "env \<Rightarrow> uuid \<Rightarrow> string \<Rightarrow> token_type \<Rightarrow> TokenPrivilege list \<Rightarrow> Token outcome \<times> event list" where
  "RegisterToken e identityID tokenString tokenType privileges =
     (case ParseToken e tokenString of
        Inl err \<Rightarrow>
          (Fails (BadParameterError ''tokenString'' tokenString
             ''invalid token string could not be parsed''), [])
      | Inr tokenClaims \<Rightarrow>
          (case FromString e (ClaimsId tokenClaims) of
             Inl err \<Rightarrow>
               (Fails (BadParameterError ''tokenString'' tokenString
                  ''could not extract token ID from token string''), [])
           | Inr tokenID \<Rightarrow>
               (let tkn = \<lparr>TokenID = tokenID, IdentityID = identityID, Status = 0,
                            TokenType = tokenType,
                            TokenExpiryTime = time_Unix (ExpiresAt tokenClaims)\<rparr> in
                case Create e tkn of
                  Some err \<Rightarrow> (Fails (InternalError err), [CreateToken tkn])
                | None \<Rightarrow>
                    (case create_privileges e tokenID privileges of
                       (Some err, evs) \<Rightarrow> (Fails (InternalError err), CreateToken tkn # evs)
                     | (None, evs) \<Rightarrow> (Returns tkn, CreateToken tkn # evs)))))"

subsection \<open>Audit\<close>

text \<open>
  Lines 104 to 112: the scan that sets \<^verbatim>\<open>resourceExistsInToken\<close>.
\<close>

definition resourceExistsIn :: "string \<Rightarrow> Permissions list \<Rightarrow> bool" where
  "resourceExistsIn resourceID tokenPermissions =
     foldl (\<lambda>found tokenPermission.
              if ResourceSetID tokenPermission = resourceID then True else found)
       False tokenPermissions"

text \<open>
  Lines 168 to 175: the scan of the persisted privileges for an embedded resource.
\<close>

definition resourceFound :: "string \<Rightarrow> PrivilegeCache list \<Rightarrow> bool" where
  "resourceFound resourceSetID privileges =
     foldl (\<lambda>found priv. if ResourceID priv = resourceSetID then True else found)
       False privileges"

text \<open>
  Lines 154 to 181: the loop over the embedded permissions.  It yields the pair
  \<^verbatim>\<open>(scopesChanged, permissionsChanged)\<close> and leaves at the first difference; a failing
  cache lookup ends the whole call with an internal error.
\<close>

fun compare_permissions ::
  "env \<Rightarrow> uuid \<Rightarrow> PrivilegeCache list \<Rightarrow> Permissions list \<Rightarrow> error + (bool \<times> bool)" where
  "compare_permissions e identityID privileges [] = Inr (False, False)"
| "compare_permissions e identityID privileges (tokenPermission # rest) =
     (case CachedPrivileges e identityID (ResourceSetID tokenPermission) of
        Inl err \<Rightarrow> Inl (InternalError err)
      | Inr privilegeCache \<Rightarrow>
          if \<not> scopesEquivalent (Scopes tokenPermission) (ScopesAsArray privilegeCache)
          then Inr (True, False)
          else if \<not> resourceFound (ResourceSetID tokenPermission) privileges
          then Inr (False, True)
          else compare_permissions e identityID privileges rest)"

text \<open>
  Lines 245 to 285: the loop over the sorted privileges of the previous token.  The limit
  is tested first, then the requested resource is skipped, then a stale privilege is
  refreshed from the cache (its error is returned as it is).
\<close>

fun Audit_migrate ::
  "env \<Rightarrow> uuid \<Rightarrow> string \<Rightarrow> PrivilegeCache list \<Rightarrow> Permissions list \<Rightarrow> TokenPrivilege list
   \<Rightarrow> error + (Permissions list \<times> TokenPrivilege list)" where
  "Audit_migrate e identityID resourceID [] perms tokenPrivs = Inr (perms, tokenPrivs)"
| "Audit_migrate e identityID resourceID (oldPriv # rest) perms tokenPrivs =
     (if int (length perms) \<ge> GetRPTTokenMaxPermissions e then Inr (perms, tokenPrivs)
      else if ResourceID oldPriv = resourceID
      then Audit_migrate e identityID resourceID rest perms tokenPrivs
      else if Stale oldPriv
      then
        (case CachedPrivileges e identityID (ResourceID oldPriv) of
           Inl err \<Rightarrow> Inl err
         | Inr privilegeCache \<Rightarrow>
             Audit_migrate e identityID resourceID rest
               (perms @ [\<lparr>ResourceSetID = ResourceID oldPriv,
                           Scopes = ScopesAsArray privilegeCache,
                           Expiry = Unix (ExpiryTime privilegeCache)\<rparr>])
               (tokenPrivs @ [\<lparr>PrivTokenID = uuid_Nil,
                                PrivPrivilegeCacheID = PrivilegeCacheID oldPriv\<rparr>]))
      else
        Audit_migrate e identityID resourceID rest
          (perms @ [\<lparr>ResourceSetID = ResourceID oldPriv,
                      Scopes = ScopesAsArray oldPriv,
                      Expiry = Unix (ExpiryTime oldPriv)\<rparr>])
          (tokenPrivs @ [\<lparr>PrivTokenID = uuid_Nil,
                           PrivPrivilegeCacheID = PrivilegeCacheID oldPriv\<rparr>]))"

text \<open>
  Lines 288 to 315: generate, sign, register the token record and persist its privileges.
\<close>

definition Audit_generate ::
  "env \<Rightarrow> Identity \<Rightarrow> TokenClaims \<Rightarrow> Permissions list \<Rightarrow> TokenPrivilege list
   \<Rightarrow> string option outcome \<times> event list" where
  "Audit_generate e identity tokenClaims perms tokenPrivs =
     (case GenerateUnsignedRPTTokenForIdentity e tokenClaims identity perms of
        Inl err \<Rightarrow> (Fails (InternalError err), [GenerateRPT tokenClaims identity perms])
      | Inr generatedToken \<Rightarrow>
          (case SignRPTToken e generatedToken of
             Inl err \<Rightarrow>
               (Fails (InternalError err),
                [GenerateRPT tokenClaims identity perms, SignRPT generatedToken])
           | Inr signedToken \<Rightarrow>
               (case RegisterToken e (ID identity) signedToken TOKEN_TYPE_RPT [] of
                  (Fails err, evs) \<Rightarrow>
                    (Fails (InternalError err),
                     GenerateRPT tokenClaims identity perms # SignRPT generatedToken # evs)
                | (Panics, evs) \<Rightarrow>
                    (Panics,
                     GenerateRPT tokenClaims identity perms # SignRPT generatedToken # evs)
                | (Returns newTokenRecord, evs) \<Rightarrow>
                    (case create_privileges e (TokenID newTokenRecord) tokenPrivs of
                       (Some err, evs') \<Rightarrow>
                         (Fails (InternalError err),
                          GenerateRPT tokenClaims identity perms # SignRPT generatedToken
                            # evs @ evs')
                     | (None, evs') \<Rightarrow>
                         (Returns (Some signedToken),
                          GenerateRPT tokenClaims identity perms # SignRPT generatedToken
                            # evs @ evs')))))"

text \<open>
  Lines 200 to 322: the mint path.  The permission of the requested resource comes first,
  from the privilege cache; with a previous token record its privileges are sorted by
  expiry time, latest first, and migrated.
\<close>

definition Audit_mint ::
  "env \<Rightarrow> Identity \<Rightarrow> TokenClaims \<Rightarrow> Token option \<Rightarrow> string
   \<Rightarrow> string option outcome \<times> event list" where
  "Audit_mint e identity tokenClaims loadedToken resourceID =
     (case CachedPrivileges e (ID identity) resourceID of
        Inl err \<Rightarrow> (Fails (InternalError err), [])
      | Inr privilegeCache \<Rightarrow>
          (let perms = [\<lparr>ResourceSetID = resourceID,
                          Scopes = ScopesAsArray privilegeCache,
                          Expiry = Unix (ExpiryTime privilegeCache)\<rparr>];
               tokenPrivs = [\<lparr>PrivTokenID = uuid_Nil,
                               PrivPrivilegeCacheID = PrivilegeCacheID privilegeCache\<rparr>]
           in case loadedToken of
                None \<Rightarrow> Audit_generate e identity tokenClaims perms tokenPrivs
              | Some tok \<Rightarrow>
                  (case ListPrivileges e (TokenID tok) of
                     Inl err \<Rightarrow> (Fails (InternalError err), [])
                   | Inr oldTokenPrivs \<Rightarrow>
                       (case Audit_migrate e (ID identity) resourceID
                               (sort_Slice e (\<lambda>a b. After (ExpiryTime a) (ExpiryTime b))
                                  oldTokenPrivs)
                               perms tokenPrivs of
                          Inl err \<Rightarrow> (Fails err, [])
                        | Inr (perms', tokenPrivs') \<Rightarrow>
                            Audit_generate e identity tokenClaims perms' tokenPrivs'))))"

text \<open>
  Lines 114 to 196: the checks on a token record that was found, in the order of the
  source: ownership, valid with the resource embedded, deprovisioned, revoked or logged
  out, stale with the resource embedded.  Whatever is left goes to the mint path.
\<close>

definition Audit_loaded ::
  "env \<Rightarrow> Identity \<Rightarrow> TokenClaims \<Rightarrow> uuid \<Rightarrow> Token \<Rightarrow> string
   \<Rightarrow> string option outcome \<times> event list" where
  "Audit_loaded e identity tokenClaims tokenID loadedToken resourceID =
     (let resourceExistsInToken =
            (case ClaimsPermissions tokenClaims of
               None \<Rightarrow> False
             | Some tokenPermissions \<Rightarrow> resourceExistsIn resourceID tokenPermissions)
      in
      if IdentityID loadedToken \<noteq> ID identity
      then (Fails (UnauthorizedError ''invalid token for identity''), [])
      else if Valid loadedToken \<and> resourceExistsInToken then (Returns None, [])
      else if HasStatus loadedToken TOKEN_STATUS_DEPROVISIONED
      then (Fails (UnauthorizedErrorWithCode ''token banned''
                     UNAUTHORIZED_CODE_TOKEN_DEPROVISIONED), [])
      else if HasStatus loadedToken TOKEN_STATUS_REVOKED
              \<or> HasStatus loadedToken TOKEN_STATUS_LOGGED_OUT
      then (Fails (UnauthorizedErrorWithCode ''token revoked or logged out''
                     UNAUTHORIZED_CODE_TOKEN_REVOKED), [])
      else if HasStatus loadedToken TOKEN_STATUS_STALE \<and> resourceExistsInToken
      then
        (case ListPrivileges e tokenID of
           Inl err \<Rightarrow> (Fails (InternalError err), [])
         | Inr privileges \<Rightarrow>
             (case (if length privileges
                         \<noteq> length (case ClaimsPermissions tokenClaims of
                                      None \<Rightarrow> [] | Some ps \<Rightarrow> ps)
                    then Inr (False, True)
                    else compare_permissions e (ID identity) privileges
                           (case ClaimsPermissions tokenClaims of
                              None \<Rightarrow> [] | Some ps \<Rightarrow> ps)) of
                Inl err \<Rightarrow> (Fails err, [])
              | Inr (scopesChanged, permissionsChanged) \<Rightarrow>
                  if \<not> scopesChanged \<and> \<not> permissionsChanged
                  then
                    (case Save e (loadedToken\<lparr>Status := 0\<rparr>) of
                       Some err \<Rightarrow>
                         (Fails (InternalError err), [SaveToken (loadedToken\<lparr>Status := 0\<rparr>)])
                     | None \<Rightarrow> (Returns None, [SaveToken (loadedToken\<lparr>Status := 0\<rparr>)]))
                  else Audit_mint e identity tokenClaims (Some loadedToken) resourceID))
      else Audit_mint e identity tokenClaims (Some loadedToken) resourceID)"

text \<open>
  Lines 63 to 102: the resource check, the token manager, the parse of the token string and
  of its \<^verbatim>\<open>jti\<close>, and the lookup of the token record.  A failed lookup is logged and
  means that there is no previous record.
\<close>

definition Audit ::
  "env \<Rightarrow> Identity \<Rightarrow> string \<Rightarrow> string \<Rightarrow> string option outcome \<times> event list" where
  "Audit e identity tokenString resourceID =
     (case CheckExists e resourceID of
        Some err \<Rightarrow>
          (case err of
             NotFoundError m \<Rightarrow>
               (Fails (BadParameterError ''resourceID'' resourceID
                  ''resource does not exist''), [])
           | _ \<Rightarrow> (Fails err, []))
      | None \<Rightarrow>
          (case ReadTokenManagerFromContext e of
             Some err \<Rightarrow> (Fails (InternalError err), [])
           | None \<Rightarrow>
               (case ParseToken e tokenString of
                  Inl err \<Rightarrow>
                    (Fails (BadParameterError ''tokenString'' tokenString
                       ''invalid token string could not be parsed''), [])
                | Inr tokenClaims \<Rightarrow>
                    (case FromString e (ClaimsId tokenClaims) of
                       Inl err \<Rightarrow>
                         (Fails (BadParameterError ''jti'' (ClaimsId tokenClaims)
                            ''invalid jti identifier - not a UUID''), [])
                     | Inr tokenID \<Rightarrow>
                         (case Load e tokenID of
                            Inl err \<Rightarrow> Audit_mint e identity tokenClaims None resourceID
                          | Inr loadedToken \<Rightarrow>
                              Audit_loaded e identity tokenClaims tokenID loadedToken
                                resourceID)))))"

subsection \<open>ExchangeRefreshToken\<close>

text \<open>
  Lines 436 to 472: the loop over the sorted privileges of the token that is replaced.
  A privilege is refreshed from the cache when the token is stale or the privilege is.
\<close>

fun Exchange_migrate ::
  "env \<Rightarrow> uuid \<Rightarrow> Token \<Rightarrow> PrivilegeCache list \<Rightarrow> Permissions list \<Rightarrow> TokenPrivilege list
   \<Rightarrow> error + (Permissions list \<times> TokenPrivilege list)" where
  "Exchange_migrate e identityID loadedToken [] permissions tokenPrivs =
     Inr (permissions, tokenPrivs)"
| "Exchange_migrate e identityID loadedToken (oldPriv # rest) permissions tokenPrivs =
     (if int (length permissions) \<ge> GetRPTTokenMaxPermissions e
      then Inr (permissions, tokenPrivs)
      else if HasStatus loadedToken TOKEN_STATUS_STALE \<or> Stale oldPriv
      then
        (case CachedPrivileges e identityID (ResourceID oldPriv) of
           Inl err \<Rightarrow> Inl (InternalError err)
         | Inr privilegeCache \<Rightarrow>
             Exchange_migrate e identityID loadedToken rest
               (permissions @ [\<lparr>ResourceSetID = ResourceID oldPriv,
                                 Scopes = ScopesAsArray privilegeCache,
                                 Expiry = Unix (ExpiryTime privilegeCache)\<rparr>])
               (tokenPrivs @ [\<lparr>PrivTokenID = uuid_Nil,
                                PrivPrivilegeCacheID = PrivilegeCacheID oldPriv\<rparr>]))
      else
        Exchange_migrate e identityID loadedToken rest
          (permissions @ [\<lparr>ResourceSetID = ResourceID oldPriv,
                            Scopes = ScopesAsArray oldPriv,
                            Expiry = Unix (ExpiryTime oldPriv)\<rparr>])
          (tokenPrivs @ [\<lparr>PrivTokenID = uuid_Nil,
                           PrivPrivilegeCacheID = PrivilegeCacheID oldPriv\<rparr>]))"

text \<open>
  Lines 380 to 474: the permissions taken over from the RPT token, for an identity that
  was resolved and a token string that is not empty.
\<close>

definition Exchange_permissions ::
  "env \<Rightarrow> Identity \<Rightarrow> string \<Rightarrow> error + (Permissions list \<times> TokenPrivilege list)" where
  "Exchange_permissions e identity rptToken =
     (case ParseToken e rptToken of
        Inl err \<Rightarrow> Inl (UnauthorizedError ''invalid RPT token could not be parsed'')
      | Inr tokenClaims \<Rightarrow>
          (case FromString e (ClaimsId tokenClaims) of
             Inl err \<Rightarrow> Inl (UnauthorizedError ''could not extract token ID from RPT token'')
           | Inr tokenID \<Rightarrow>
               (case Load e tokenID of
                  Inl err \<Rightarrow> Inr ([], [])
                | Inr loadedToken \<Rightarrow>
                    if IdentityID loadedToken \<noteq> ID identity
                    then Inl (UnauthorizedError ''invalid token for identity'')
                    else if HasStatus loadedToken TOKEN_STATUS_DEPROVISIONED
                    then Inl (UnauthorizedErrorWithCode ''token banned''
                                UNAUTHORIZED_CODE_TOKEN_DEPROVISIONED)
                    else if HasStatus loadedToken TOKEN_STATUS_REVOKED
                            \<or> HasStatus loadedToken TOKEN_STATUS_LOGGED_OUT
                    then Inl (UnauthorizedErrorWithCode ''token revoked or logged out''
                                UNAUTHORIZED_CODE_TOKEN_REVOKED)
                    else
                      (case ListPrivileges e (TokenID loadedToken) of
                         Inl err \<Rightarrow> Inl (InternalError err)
                       | Inr oldTokenPrivs \<Rightarrow>
                           Exchange_migrate e (ID identity) loadedToken
                             (sort_Slice e (\<lambda>a b. After (ExpiryTime a) (ExpiryTime b))
                                oldTokenPrivs)
                             [] []))))"

text \<open>
  Lines 476 to 501: the new token pair and its registration.  \<^verbatim>\<open>identity.ID\<close> is read
  for the registration, which is a nil dereference when no identity was resolved.
\<close>

definition Exchange_register ::
  "env \<Rightarrow> string \<Rightarrow> Identity option \<Rightarrow> Permissions list \<Rightarrow> TokenPrivilege list
   \<Rightarrow> oauth2_Token outcome \<times> event list" where
  "Exchange_register e refreshToken identity permissions tokenPrivs =
     (case GenerateUserTokenUsingRefreshToken e refreshToken identity permissions of
        Inl err \<Rightarrow> (Fails err, [GenerateUserToken refreshToken identity permissions])
      | Inr generatedToken \<Rightarrow>
          (case identity of
             None \<Rightarrow> (Panics, [GenerateUserToken refreshToken identity permissions])
           | Some idn \<Rightarrow>
               (case (if length permissions > 0
                      then RegisterToken e (ID idn) (AccessToken generatedToken)
                             TOKEN_TYPE_RPT tokenPrivs
                      else RegisterToken e (ID idn) (AccessToken generatedToken)
                             TOKEN_TYPE_ACCESS []) of
                  (Fails err, evs) \<Rightarrow>
                    (Fails (InternalError err),
                     GenerateUserToken refreshToken identity permissions # evs)
                | (Panics, evs) \<Rightarrow>
                    (Panics, GenerateUserToken refreshToken identity permissions # evs)
                | (Returns accessRecord, evs) \<Rightarrow>
                    (case RegisterToken e (ID idn) (RefreshToken generatedToken)
                            TOKEN_TYPE_REFRESH [] of
                       (Fails err, evs') \<Rightarrow>
                         (Fails (InternalError err),
                          GenerateUserToken refreshToken identity permissions # evs @ evs')
                     | (Panics, evs') \<Rightarrow>
                         (Panics,
                          GenerateUserToken refreshToken identity permissions # evs @ evs')
                     | (Returns refreshRecord, evs') \<Rightarrow>
                         (Returns generatedToken,
                          GenerateUserToken refreshToken identity permissions
                            # evs @ evs')))))"

text \<open>
  Lines 361 to 508: after the identity lookup.  A banned user is refused before anything
  is generated; otherwise the transaction runs and its token pair is converted.
\<close>

definition Exchange_resolved ::
  "env \<Rightarrow> string \<Rightarrow> string \<Rightarrow> Identity option \<Rightarrow> TokenSet outcome \<times> event list" where
  "Exchange_resolved e refreshToken rptToken identity =
     (if (case identity of None \<Rightarrow> False | Some idn \<Rightarrow> Banned (User idn))
      then (Fails (UnauthorizedError ''unauthorized access''), [])
      else
        (case (case identity of
                 None \<Rightarrow> Inr ([], [])
               | Some idn \<Rightarrow>
                   if rptToken \<noteq> [] then Exchange_permissions e idn rptToken
                   else Inr ([], [])) of
           Inl err \<Rightarrow> (Fails err, [])
         | Inr (permissions, tokenPrivs) \<Rightarrow>
             (case Exchange_register e refreshToken identity permissions tokenPrivs of
                (Fails err, evs) \<Rightarrow> (Fails err, evs)
              | (Panics, evs) \<Rightarrow> (Panics, evs)
              | (Returns generatedToken, evs) \<Rightarrow>
                  (case ConvertToken e generatedToken of
                     Inl err \<Rightarrow> (Fails err, evs)
                   | Inr tokenSet \<Rightarrow> (Returns tokenSet, evs)))))"

text \<open>
  Lines 326 to 359: the parse and the validation of the refresh token, the \<^verbatim>\<open>sub\<close>
  claim and the identity lookup.  An unauthorized error of the lookup is returned; any
  other error of it is logged and the exchange goes on without an identity.
\<close>

definition ExchangeRefreshToken ::
  "env \<Rightarrow> string \<Rightarrow> string \<Rightarrow> TokenSet outcome \<times> event list" where
  "ExchangeRefreshToken e refreshToken rptToken =
     (case Parse e refreshToken of
        Inl err \<Rightarrow> (Fails (UnauthorizedErrorOf err), [])
      | Inr tkn \<Rightarrow>
          (case ValidateToken e tkn of
             (Fails err, evs) \<Rightarrow> (Fails (UnauthorizedErrorOf err), evs)
           | (Panics, evs) \<Rightarrow> (Panics, evs)
           | (Returns u, evs) \<Rightarrow>
               (case Claims tkn ''sub'' of
                  None \<Rightarrow>
                    (Fails (UnauthorizedError ''missing 'sub' claim in the refresh token''),
                     evs)
                | Some sub \<Rightarrow>
                    (case FromString e (Sprintf_s sub) of
                       Inl err \<Rightarrow> (Fails (UnauthorizedErrorOf err), evs)
                     | Inr identityID \<Rightarrow>
                         (case LoadWithUser e identityID of
                            Inl err \<Rightarrow>
                              if IsUnauthorizedError err then (Fails err, evs)
                              else
                                (case Exchange_resolved e refreshToken rptToken None of
                                   (r, evs') \<Rightarrow> (r, evs @ evs'))
                          | Inr identity \<Rightarrow>
                              (case Exchange_resolved e refreshToken rptToken
                                      (Some identity) of
                                 (r, evs') \<Rightarrow> (r, evs @ evs')))))))"

subsection \<open>Kinds of calls\<close>

text \<open>
  The calls that write a token record or one of its privileges.
\<close>

fun is_registration :: "event \<Rightarrow> bool" where
  "is_registration (CreateToken t) = True"
| "is_registration (CreateTokenPrivilege p) = True"
| "is_registration ev = False"

subsection \<open>The migrated entry\<close>

text \<open>
  What the specification says of an entry that is carried over from the previous token: it
  keeps the resource of the historical privilege; its scopes and expiry are those of the
  historical privilege, or, when that privilege is stale, those the privilege cache returns
  for the resource.  The loop of Audit is compared with this description.
\<close>

definition migrated_entry :: "env \<Rightarrow> uuid \<Rightarrow> Permissions \<Rightarrow> PrivilegeCache \<Rightarrow> bool" where
  "migrated_entry e identityID perm oldPriv =
     (ResourceSetID perm = ResourceID oldPriv
      \<and> (if Stale oldPriv
         then (case CachedPrivileges e identityID (ResourceID oldPriv) of
                 Inl err \<Rightarrow> False
               | Inr privilegeCache \<Rightarrow>
                   Scopes perm = ScopesAsArray privilegeCache
                   \<and> Expiry perm = Unix (ExpiryTime privilegeCache))
         else Scopes perm = ScopesAsArray oldPriv
              \<and> Expiry perm = Unix (ExpiryTime oldPriv)))"

section \<open>Example collaborators\<close>

text \<open>
  Concrete collaborators on which the operations are evaluated.  \<open>insertion_sort\<close>
  sorts as \<^verbatim>\<open>sort.Slice\<close> is documented to: the result is a permutation in which no
  element is less than one that stands before it.
\<close>

fun insert_by :: "('a \<Rightarrow> 'a \<Rightarrow> bool) \<Rightarrow> 'a \<Rightarrow> 'a list \<Rightarrow> 'a list" where
  "insert_by lt x [] = [x]"
| "insert_by lt x (y # ys) = (if lt x y then x # y # ys else y # insert_by lt x ys)"

fun insertion_sort :: "('a \<Rightarrow> 'a \<Rightarrow> bool) \<Rightarrow> 'a list \<Rightarrow> 'a list" where
  "insertion_sort lt [] = []"
| "insertion_sort lt (x # xs) = insert_by lt x (insertion_sort lt xs)"

definition example_identity :: Identity where
  "example_identity = \<lparr>ID = 7, Username = ''alice'', User = \<lparr>Banned = False\<rparr>\<rparr>"

definition example_banned :: Identity where
  "example_banned = \<lparr>ID = 8, Username = ''bob'', User = \<lparr>Banned = True\<rparr>\<rparr>"

definition example_claims :: TokenClaims where
  "example_claims =
     \<lparr>ClaimsId = ''jti-1'', ExpiresAt = 5000,
      ClaimsPermissions =
        Some [\<lparr>ResourceSetID = ''res-a'', Scopes = [''read'', ''write''], Expiry = 100\<rparr>,
              \<lparr>ResourceSetID = ''res-b'', Scopes = [''read''], Expiry = 200\<rparr>]\<rparr>"

definition example_token :: Token where
  "example_token =
     \<lparr>TokenID = 1, IdentityID = 7, Status = 0, TokenType = TOKEN_TYPE_RPT,
      TokenExpiryTime = 5000000000000\<rparr>"

definition example_refresh_record :: Token where
  "example_refresh_record =
     \<lparr>TokenID = 2, IdentityID = 7, Status = 0, TokenType = TOKEN_TYPE_REFRESH,
      TokenExpiryTime = 9000000000000\<rparr>"

definition example_refresh :: jwt_Token where
  "example_refresh =
     \<lparr>Raw = ''refresh'',
      Claims = [''jti'' \<mapsto> StringClaim ''jti-2'', ''sub'' \<mapsto> StringClaim ''id-7'']\<rparr>"

definition example_priv :: "uuid \<Rightarrow> string \<Rightarrow> string list \<Rightarrow> int \<Rightarrow> bool \<Rightarrow> PrivilegeCache" where
  "example_priv n r sc t st =
     \<lparr>PrivilegeCacheID = n, ResourceID = r, ScopesAsArray = sc,
      ExpiryTime = t * 1000000000, Stale = st\<rparr>"

definition example_privileges :: "PrivilegeCache list" where
  "example_privileges =
     [example_priv 21 ''res-a'' [''read'', ''write''] 100 False,
      example_priv 22 ''res-b'' [''read''] 200 True]"

definition example_cache :: "PrivilegeCache list" where
  "example_cache =
     [example_priv 31 ''res-a'' [''write'', ''read''] 150 False,
      example_priv 32 ''res-b'' [''read''] 250 False,
      example_priv 33 ''res-c'' [''admin''] 350 False,
      example_priv 34 ''r03'' [''read'', ''admin''] 903 False,
      example_priv 35 ''r11'' [] 911 False]"

text \<open>
  Twelve historical privileges, out of order; two of them are stale.
\<close>

definition example_history :: "PrivilegeCache list" where
  "example_history =
     [example_priv 41 ''r01'' [''read''] 510 False,
      example_priv 42 ''r02'' [''read''] 620 False,
      example_priv 43 ''r03'' [''read''] 730 True,
      example_priv 44 ''r04'' [''read''] 440 False,
      example_priv 45 ''r05'' [''write''] 750 False,
      example_priv 46 ''r06'' [''read''] 360 False,
      example_priv 47 ''r07'' [''read''] 270 False,
      example_priv 48 ''r08'' [''read'', ''write''] 780 False,
      example_priv 49 ''r09'' [''read''] 190 False,
      example_priv 50 ''r10'' [''read''] 700 False,
      example_priv 51 ''r11'' [''read''] 110 True,
      example_priv 52 ''r12'' [''read''] 720 False]"

definition example_env :: env where
  "example_env =
     \<lparr>CheckExists = (\<lambda>r. None),
      ReadTokenManagerFromContext = None,
      ParseToken =
        (\<lambda>s. if s = ''rpt'' then Inr example_claims
             else if s = ''signed''
             then Inr \<lparr>ClaimsId = ''jti-3'', ExpiresAt = 6000, ClaimsPermissions = None\<rparr>
             else if s = ''access''
             then Inr \<lparr>ClaimsId = ''jti-3'', ExpiresAt = 6000, ClaimsPermissions = None\<rparr>
             else if s = ''refresh2''
             then Inr \<lparr>ClaimsId = ''jti-4'', ExpiresAt = 9000, ClaimsPermissions = None\<rparr>
             else Inl (OtherError ''malformed token'')),
      FromString =
        (\<lambda>s. if s = ''jti-1'' then Inr 1
             else if s = ''jti-2'' then Inr 2
             else if s = ''jti-3'' then Inr 3
             else if s = ''jti-4'' then Inr 4
             else if s = ''id-7'' then Inr 7
             else if s = ''id-8'' then Inr 8
             else Inl (OtherError ''uuid: incorrect UUID length'')),
      Load =
        (\<lambda>t. if t = 1 then Inr example_token
             else if t = 2 then Inr example_refresh_record
             else Inl (NotFoundError ''token'')),
      Save = (\<lambda>t. None),
      Create = (\<lambda>t. None),
      ListPrivileges = (\<lambda>t. if t = 1 then Inr example_privileges else Inr []),
      CreatePrivilege = (\<lambda>p. None),
      CachedPrivileges =
        (\<lambda>i r. case find (\<lambda>c. ResourceID c = r) example_cache of
                 None \<Rightarrow> Inl (NotFoundError r)
               | Some c \<Rightarrow> Inr c),
      GetRPTTokenMaxPermissions = 5,
      sort_Slice = insertion_sort,
      GenerateUnsignedRPTTokenForIdentity =
        (\<lambda>c i ps. Inr \<lparr>Raw = ''unsigned'', Claims = Map.empty\<rparr>),
      SignRPTToken = (\<lambda>t. Inr ''signed''),
      Parse =
        (\<lambda>s. if s = ''refresh'' then Inr example_refresh
             else Inl (OtherError ''malformed token'')),
      LoadWithUser =
        (\<lambda>i. if i = 7 then Inr example_identity
             else if i = 8 then Inr example_banned
             else Inl (NotFoundError ''identity'')),
      TouchLastActive = (\<lambda>i. None),
      GenerateUserTokenUsingRefreshToken =
        (\<lambda>r i ps. Inr \<lparr>AccessToken = ''access'', RefreshToken = ''refresh2''\<rparr>),
      ConvertToken =
        (\<lambda>t. Inr \<lparr>SetAccessToken = AccessToken t, SetRefreshToken = RefreshToken t\<rparr>)\<rparr>"

text \<open>
  A stale token whose single permission carries the scope \<open>read\<close> twice, with the live
  scopes of the resource as a parameter.
\<close>

definition example_dup_env :: "string list \<Rightarrow> env" where
  "example_dup_env live =
     example_env
       \<lparr>ParseToken :=
          (\<lambda>s. if s = ''rpt''
               then Inr \<lparr>ClaimsId = ''jti-1'', ExpiresAt = 5000,
                         ClaimsPermissions =
                           Some [\<lparr>ResourceSetID = ''res-a'', Scopes = [''read'', ''read''],
                                  Expiry = 100\<rparr>]\<rparr>
               else ParseToken example_env s),
        Load := (\<lambda>t. Inr (example_token\<lparr>Status := 8\<rparr>)),
        ListPrivileges := (\<lambda>t. Inr [example_priv 21 ''res-a'' [''read'', ''read''] 100 False]),
        CachedPrivileges := (\<lambda>i r. Inr (example_priv 31 ''res-a'' live 150 False))\<rparr>"

text \<open>
  The permission list of the token that replaces \<open>example_token\<close> when the resource
  \<open>res-c\<close> is audited against the twelve historical privileges with a maximum of five.
\<close>

definition example_minted :: "Permissions list" where
  "example_minted =
     [\<lparr>ResourceSetID = ''res-c'', Scopes = [''admin''], Expiry = 350\<rparr>,
      \<lparr>ResourceSetID = ''r08'', Scopes = [''read'', ''write''], Expiry = 780\<rparr>,
      \<lparr>ResourceSetID = ''r05'', Scopes = [''write''], Expiry = 750\<rparr>,
      \<lparr>ResourceSetID = ''r03'', Scopes = [''read'', ''admin''], Expiry = 903\<rparr>,
      \<lparr>ResourceSetID = ''r12'', Scopes = [''read''], Expiry = 720\<rparr>]"

section \<open>Properties\<close>

subsection \<open>Scope comparison\<close>

lemma scope_found_iff: "scope_found v xs \<longleftrightarrow> v \<in> set xs"
  by (induction xs) auto

lemma scopes_all_found_iff: "scopes_all_found xs ys \<longleftrightarrow> set xs \<subseteq> set ys"
  by (induction xs) (auto simp: scope_found_iff)

lemma scopesEquivalent_iff:
  "scopesEquivalent xs ys \<longleftrightarrow> length xs = length ys \<and> set xs \<subseteq> set ys"
  by (simp add: scopesEquivalent_def scopes_all_found_iff)

lemma scopesEquivalent_distinct:
  assumes "distinct xs" and "distinct ys"
  shows "scopesEquivalent xs ys \<longleftrightarrow> set xs = set ys"
proof
  assume eq: "scopesEquivalent xs ys"
  then have len: "length xs = length ys" and sub: "set xs \<subseteq> set ys"
    by (simp_all add: scopesEquivalent_iff)
  from assms len have "card (set xs) = card (set ys)"
    by (simp add: distinct_card)
  with sub show "set xs = set ys"
    by (simp add: card_subset_eq)
next
  assume "set xs = set ys"
  with assms show "scopesEquivalent xs ys"
    by (metis distinct_card order_refl scopesEquivalent_iff)
qed

text \<open>
  C9: the comparison is not symmetric.  With the first slice \<open>[x, x]\<close> and the second
  \<open>[x, y]\<close> the lengths agree and each element of the first occurs in the second, so the
  code answers true; in the other direction \<open>y\<close> is not found and the code answers false.
\<close>

theorem C9_scopesEquivalent_asymmetric:
  "scopesEquivalent [''x'', ''x''] [''x'', ''y''] = True
   \<and> scopesEquivalent [''x'', ''y''] [''x'', ''x''] = False"
  by (simp add: scopesEquivalent_def)

subsection \<open>Evaluation of the examples\<close>

lemmas status_defs =
  Valid_def HasStatus_def TOKEN_STATUS_DEPROVISIONED_def TOKEN_STATUS_REVOKED_def
  TOKEN_STATUS_LOGGED_OUT_def TOKEN_STATUS_STALE_def

lemmas example_defs =
  example_env_def example_identity_def example_banned_def example_claims_def
  example_token_def example_refresh_record_def example_refresh_def example_priv_def
  example_privileges_def example_cache_def example_history_def example_dup_env_def example_minted_def

lemmas mint_defs =
  Audit_mint_def Audit_generate_def RegisterToken_def Unix_def time_Unix_def After_def
  uuid_Nil_def Let_def

subsection \<open>Scans and traces\<close>

lemma foldl_found:
  "foldl (\<lambda>found x. if P x then True else found) b xs \<longleftrightarrow> b \<or> (\<exists>x\<in>set xs. P x)"
  by (induction xs arbitrary: b) auto

lemma resourceExistsIn_iff:
  "resourceExistsIn resourceID ps \<longleftrightarrow> resourceID \<in> ResourceSetID ` set ps"
  by (auto simp: resourceExistsIn_def foldl_found)

lemma resourceFound_iff:
  "resourceFound r privs \<longleftrightarrow> r \<in> ResourceID ` set privs"
  by (auto simp: resourceFound_def foldl_found)

lemma ValidateToken_touch_events:
  "ev \<in> set (snd (ValidateToken_touch e t)) \<Longrightarrow> \<exists>i. ev = TouchIdentity i"
  by (auto simp: ValidateToken_touch_def split: option.splits claim_value.splits sum.splits)

lemma ValidateToken_events:
  "ev \<in> set (snd (ValidateToken e t)) \<Longrightarrow> \<exists>i. ev = TouchIdentity i"
  by (auto simp: ValidateToken_def split: option.splits claim_value.splits sum.splits if_splits
      dest: ValidateToken_touch_events)

subsection \<open>ValidateToken\<close>

text \<open>
  C8: once the \<^verbatim>\<open>jti\<close> claim has given a token id, an error of the repository's
  \<^verbatim>\<open>Load\<close>, not-found included, is what ValidateToken returns, unchanged; and a
  record that is loaded but not \<open>Valid\<close> gives an unauthorized error.  In both cases no
  call is issued, so the identity's last-active timestamp is not touched.
\<close>

theorem C8_ValidateToken_load:
  assumes "Claims accessToken ''jti'' = Some (StringClaim jti)"
    and "FromString e jti = Inr tokenID"
  shows "(\<forall>err. Load e tokenID = Inl err \<longrightarrow> ValidateToken e accessToken = (Fails err, []))
       \<and> (\<forall>tkn. Load e tokenID = Inr tkn \<and> \<not> Valid tkn \<longrightarrow>
             ValidateToken e accessToken = (Fails (UnauthorizedError ''invalid token''), []))"
  using assms by (simp add: ValidateToken_def)

theorem C8_witness:
  "ValidateToken (example_env\<lparr>Load := (\<lambda>t. Inl (NotFoundError ''token''))\<rparr>) example_refresh
     = (Fails (NotFoundError ''token''), [])
   \<and> ValidateToken (example_env\<lparr>Load := (\<lambda>t. Inr (example_refresh_record\<lparr>Status := 2\<rparr>))\<rparr>)
       example_refresh
     = (Fails (UnauthorizedError ''invalid token''), [])"
proof -
  let ?a = "example_env\<lparr>Load := (\<lambda>t. Inl (NotFoundError ''token''))\<rparr>"
  let ?b = "example_env\<lparr>Load := (\<lambda>t. Inr (example_refresh_record\<lparr>Status := 2\<rparr>))\<rparr>"
  have jti: "Claims example_refresh ''jti'' = Some (StringClaim ''jti-2'')"
    by (simp add: example_defs)
  have ida: "FromString ?a ''jti-2'' = Inr 2" and idb: "FromString ?b ''jti-2'' = Inr 2"
    by (simp_all add: example_defs)
  have la: "Load ?a 2 = Inl (NotFoundError ''token'')"
    by simp
  have lb: "Load ?b 2 = Inr (example_refresh_record\<lparr>Status := 2\<rparr>)
            \<and> \<not> Valid (example_refresh_record\<lparr>Status := 2\<rparr>)"
    by (simp add: status_defs)
  from C8_ValidateToken_load [OF jti ida] la C8_ValidateToken_load [OF jti idb] lb
  show ?thesis by blast
qed

text \<open>
  C10: for a loaded, valid record and a \<^verbatim>\<open>transient\<close> claim that is a string which
  \<^verbatim>\<open>ParseBool\<close> rejects, ValidateToken behaves as it does for the same token without
  the claim; with a \<^verbatim>\<open>sub\<close> claim that names an identity it touches the identity's
  last-active timestamp, and fails only if that call fails.
\<close>

theorem C10_ValidateToken_unparsable_transient:
  assumes "Claims accessToken ''jti'' = Some (StringClaim jti)"
    and "FromString e jti = Inr tokenID"
    and "Load e tokenID = Inr tkn"
    and "Valid tkn"
    and "Claims accessToken ''transient'' = Some (StringClaim transClaim)"
    and "ParseBool transClaim = Inl err"
  shows "ValidateToken e accessToken
           = ValidateToken e (accessToken\<lparr>Claims := (Claims accessToken)(''transient'' := None)\<rparr>)
       \<and> (\<forall>sub identityID.
             Claims accessToken ''sub'' = Some (StringClaim sub) \<and> FromString e sub = Inr identityID
             \<longrightarrow> ValidateToken e accessToken
                   = (case TouchLastActive e identityID of
                        None \<Rightarrow> Returns ()
                      | Some err' \<Rightarrow> Fails (InternalError err'),
                      [TouchIdentity identityID]))"
proof -
  let ?t = "accessToken\<lparr>Claims := (Claims accessToken)(''transient'' := None)\<rparr>"
  have touch: "ValidateToken_touch e ?t = ValidateToken_touch e accessToken"
    by (simp add: ValidateToken_touch_def split: option.splits claim_value.splits sum.splits)
  have run: "ValidateToken e accessToken = ValidateToken_touch e accessToken"
    using assms by (simp add: ValidateToken_def)
  have "ValidateToken e ?t = ValidateToken_touch e ?t"
    using assms by (simp add: ValidateToken_def)
  with touch run have first: "ValidateToken e accessToken = ValidateToken e ?t"
    by simp
  have second: "ValidateToken e accessToken
      = (case TouchLastActive e identityID of
           None \<Rightarrow> Returns () | Some err' \<Rightarrow> Fails (InternalError err'),
         [TouchIdentity identityID])"
    if "Claims accessToken ''sub'' = Some (StringClaim sub)" "FromString e sub = Inr identityID"
    for sub identityID
    using that by (simp add: run ValidateToken_touch_def split: option.splits)
  from first second show ?thesis by blast
qed

theorem C10_witness:
  "ValidateToken example_env
     (example_refresh\<lparr>Claims := (Claims example_refresh)(''transient'' \<mapsto> StringClaim ''yes'')\<rparr>)
   = (Returns (), [TouchIdentity 7])"
proof -
  let ?t = "example_refresh\<lparr>Claims := (Claims example_refresh)(''transient'' \<mapsto> StringClaim ''yes'')\<rparr>"
  have 1: "Claims ?t ''jti'' = Some (StringClaim ''jti-2'')"
    by (simp add: example_defs)
  have 2: "FromString example_env ''jti-2'' = Inr 2"
    by (simp add: example_defs)
  have 3: "Load example_env 2 = Inr example_refresh_record"
    by (simp add: example_defs)
  have 4: "Valid example_refresh_record"
    by (simp add: example_defs status_defs)
  have 5: "Claims ?t ''transient'' = Some (StringClaim ''yes'')"
    by simp
  have 6: "ParseBool ''yes'' = Inl (OtherError ''invalid syntax'')"
    by (simp add: ParseBool_def)
  have 7: "Claims ?t ''sub'' = Some (StringClaim ''id-7'') \<and> FromString example_env ''id-7'' = Inr 7"
    by (simp add: example_defs)
  have 8: "TouchLastActive example_env 7 = None"
    by (simp add: example_defs)
  from C10_ValidateToken_unparsable_transient [OF 1 2 3 4 5 6] 7 8
  show ?thesis by (metis option.simps(4))
qed

subsection \<open>Audit\<close>

text \<open>
  C4: when the lookup finds a record for the parsed \<^verbatim>\<open>jti\<close>, the record belongs to
  the caller and is \<open>Valid\<close>, and the parsed permissions include the requested
  resource, Audit returns \<^verbatim>\<open>(nil, nil)\<close> and issues no call: nothing is minted.
\<close>

theorem C4_Audit_valid_token_embeds_resource:
  assumes "CheckExists e resourceID = None"
    and "ReadTokenManagerFromContext e = None"
    and "ParseToken e tokenString = Inr tokenClaims"
    and "FromString e (ClaimsId tokenClaims) = Inr tokenID"
    and "Load e tokenID = Inr loadedToken"
    and "IdentityID loadedToken = ID identity"
    and "Valid loadedToken"
    and "ClaimsPermissions tokenClaims = Some tokenPermissions"
    and "resourceID \<in> ResourceSetID ` set tokenPermissions"
  shows "Audit e identity tokenString resourceID = (Returns None, [])"
  using assms by (simp add: Audit_def Audit_loaded_def resourceExistsIn_iff)

theorem C4_witness:
  "Audit example_env example_identity ''rpt'' ''res-a'' = (Returns None, [])"
proof -
  have "CheckExists example_env ''res-a'' = None"
    and "ReadTokenManagerFromContext example_env = None"
    and "ParseToken example_env ''rpt'' = Inr example_claims"
    and "FromString example_env (ClaimsId example_claims) = Inr 1"
    and "Load example_env 1 = Inr example_token"
    and "IdentityID example_token = ID example_identity"
    and "Valid example_token"
    and "ClaimsPermissions example_claims
           = Some [\<lparr>ResourceSetID = ''res-a'', Scopes = [''read'', ''write''], Expiry = 100\<rparr>,
                   \<lparr>ResourceSetID = ''res-b'', Scopes = [''read''], Expiry = 200\<rparr>]"
    and "''res-a'' \<in> ResourceSetID `
           set [\<lparr>ResourceSetID = ''res-a'', Scopes = [''read'', ''write''], Expiry = 100\<rparr>,
                \<lparr>ResourceSetID = ''res-b'', Scopes = [''read''], Expiry = 200\<rparr>]"
    by (simp_all add: example_defs status_defs)
  then show ?thesis
    by (rule C4_Audit_valid_token_embeds_resource)
qed

subsection \<open>ExchangeRefreshToken\<close>

text \<open>
  C7: when the identity resolved from the refresh token has a banned user, the exchange
  fails with an unauthorized error, and the only calls issued are those of the token
  validation (the last-active touch): the token manager's generation is never invoked and
  nothing is registered.
\<close>

theorem C7_Exchange_banned:
  assumes "Parse e refreshToken = Inr tkn"
    and "ValidateToken e tkn = (Returns (), evs)"
    and "Claims tkn ''sub'' = Some sub"
    and "FromString e (Sprintf_s sub) = Inr identityID"
    and "LoadWithUser e identityID = Inr identity"
    and "Banned (User identity)"
  shows "ExchangeRefreshToken e refreshToken rptToken
           = (Fails (UnauthorizedError ''unauthorized access''), evs)
       \<and> (\<forall>ev \<in> set (snd (ExchangeRefreshToken e refreshToken rptToken)).
             \<exists>i. ev = TouchIdentity i)"
proof -
  have res: "ExchangeRefreshToken e refreshToken rptToken
           = (Fails (UnauthorizedError ''unauthorized access''), evs)"
    using assms by (simp add: ExchangeRefreshToken_def Exchange_resolved_def)
  have "set evs = set (snd (ValidateToken e tkn))"
    using assms(2) by simp
  then show ?thesis
    using res ValidateToken_events by auto
qed

theorem C7_witness:
  "ExchangeRefreshToken
     (example_env\<lparr>Parse := (\<lambda>s. Inr (example_refresh\<lparr>Claims :=
        (Claims example_refresh)(''sub'' \<mapsto> StringClaim ''id-8'')\<rparr>))\<rparr>) ''refresh'' ''rpt''
   = (Fails (UnauthorizedError ''unauthorized access''), [TouchIdentity 8])"
proof -
  let ?t = "example_refresh\<lparr>Claims := (Claims example_refresh)(''sub'' \<mapsto> StringClaim ''id-8'')\<rparr>"
  let ?e = "example_env\<lparr>Parse := (\<lambda>s. Inr ?t)\<rparr>"
  have "Parse ?e ''refresh'' = Inr ?t"
    and "ValidateToken ?e ?t = (Returns (), [TouchIdentity 8])"
    and "Claims ?t ''sub'' = Some (StringClaim ''id-8'')"
    and "FromString ?e (Sprintf_s (StringClaim ''id-8'')) = Inr 8"
    and "LoadWithUser ?e 8 = Inr example_banned"
    and "Banned (User example_banned)"
    by (simp_all add: example_defs status_defs ValidateToken_def ValidateToken_touch_def)
  from C7_Exchange_banned [OF this] show ?thesis
    by blast
qed

subsection \<open>Ownership and status checks of both operations\<close>

lemma HasStatus_not_Valid:
  "HasStatus t TOKEN_STATUS_DEPROVISIONED \<or> HasStatus t TOKEN_STATUS_REVOKED
     \<or> HasStatus t TOKEN_STATUS_LOGGED_OUT \<or> HasStatus t TOKEN_STATUS_STALE \<Longrightarrow> \<not> Valid t"
  by (auto simp: status_defs)

text \<open>
  C5: when the lookup finds a token record whose \<^verbatim>\<open>IdentityID\<close> is not the caller's,
  Audit fails with an unauthorized error and issues no call.  ExchangeRefreshToken, with an
  RPT token supplied and an identity resolved, fails with an unauthorized error as well, and
  the only calls issued are those of the refresh token's validation: no token is generated
  or registered.
\<close>

theorem C5_foreign_token_unauthorized:
  "(CheckExists e resourceID = None \<and> ReadTokenManagerFromContext e = None
      \<and> ParseToken e tokenString = Inr tokenClaims
      \<and> FromString e (ClaimsId tokenClaims) = Inr tokenID
      \<and> Load e tokenID = Inr loadedToken
      \<and> IdentityID loadedToken \<noteq> ID identity
    \<longrightarrow> Audit e identity tokenString resourceID
          = (Fails (UnauthorizedError ''invalid token for identity''), []))
   \<and> (Parse e refreshToken = Inr tkn \<and> ValidateToken e tkn = (Returns (), evs)
      \<and> Claims tkn ''sub'' = Some sub \<and> FromString e (Sprintf_s sub) = Inr identityID
      \<and> LoadWithUser e identityID = Inr resolved
      \<and> rptToken \<noteq> [] \<and> ParseToken e rptToken = Inr rptClaims
      \<and> FromString e (ClaimsId rptClaims) = Inr rptID
      \<and> Load e rptID = Inr rptRecord
      \<and> IdentityID rptRecord \<noteq> ID resolved
    \<longrightarrow> ExchangeRefreshToken e refreshToken rptToken
          = (Fails (if Banned (User resolved) then UnauthorizedError ''unauthorized access''
                    else UnauthorizedError ''invalid token for identity''), evs)
        \<and> (\<forall>ev \<in> set evs. \<exists>i. ev = TouchIdentity i))"
proof (intro conjI impI)
  assume "CheckExists e resourceID = None \<and> ReadTokenManagerFromContext e = None
      \<and> ParseToken e tokenString = Inr tokenClaims
      \<and> FromString e (ClaimsId tokenClaims) = Inr tokenID
      \<and> Load e tokenID = Inr loadedToken
      \<and> IdentityID loadedToken \<noteq> ID identity"
  then show "Audit e identity tokenString resourceID
          = (Fails (UnauthorizedError ''invalid token for identity''), [])"
    by (simp add: Audit_def Audit_loaded_def)
next
  assume h: "Parse e refreshToken = Inr tkn \<and> ValidateToken e tkn = (Returns (), evs)
      \<and> Claims tkn ''sub'' = Some sub \<and> FromString e (Sprintf_s sub) = Inr identityID
      \<and> LoadWithUser e identityID = Inr resolved
      \<and> rptToken \<noteq> [] \<and> ParseToken e rptToken = Inr rptClaims
      \<and> FromString e (ClaimsId rptClaims) = Inr rptID
      \<and> Load e rptID = Inr rptRecord
      \<and> IdentityID rptRecord \<noteq> ID resolved"
  then show "ExchangeRefreshToken e refreshToken rptToken
          = (Fails (if Banned (User resolved) then UnauthorizedError ''unauthorized access''
                    else UnauthorizedError ''invalid token for identity''), evs)"
    by (simp add: ExchangeRefreshToken_def Exchange_resolved_def Exchange_permissions_def)
  from h have "set evs = set (snd (ValidateToken e tkn))"
    by simp
  then show "\<forall>ev \<in> set evs. \<exists>i. ev = TouchIdentity i"
    using ValidateToken_events by blast
qed

theorem C5_witness:
  "Audit (example_env\<lparr>Load := (\<lambda>t. Inr (example_token\<lparr>IdentityID := 9\<rparr>))\<rparr>)
     example_identity ''rpt'' ''res-a''
     = (Fails (UnauthorizedError ''invalid token for identity''), [])
   \<and> ExchangeRefreshToken
       (example_env\<lparr>Load := (\<lambda>t. if t = 1 then Inr (example_token\<lparr>IdentityID := 9\<rparr>)
                                  else Inr example_refresh_record)\<rparr>) ''refresh'' ''rpt''
     = (Fails (UnauthorizedError ''invalid token for identity''), [TouchIdentity 7])"
proof -
  let ?a = "example_env\<lparr>Load := (\<lambda>t. Inr (example_token\<lparr>IdentityID := 9\<rparr>))\<rparr>"
  let ?b = "example_env\<lparr>Load := (\<lambda>t. if t = 1 then Inr (example_token\<lparr>IdentityID := 9\<rparr>)
                                  else Inr example_refresh_record)\<rparr>"
  have a: "CheckExists ?a ''res-a'' = None \<and> ReadTokenManagerFromContext ?a = None
      \<and> ParseToken ?a ''rpt'' = Inr example_claims
      \<and> FromString ?a (ClaimsId example_claims) = Inr 1
      \<and> Load ?a 1 = Inr (example_token\<lparr>IdentityID := 9\<rparr>)
      \<and> IdentityID (example_token\<lparr>IdentityID := 9\<rparr>) \<noteq> ID example_identity"
    by (simp add: example_defs)
  have b: "Parse ?b ''refresh'' = Inr example_refresh
      \<and> ValidateToken ?b example_refresh = (Returns (), [TouchIdentity 7])
      \<and> Claims example_refresh ''sub'' = Some (StringClaim ''id-7'')
      \<and> FromString ?b (Sprintf_s (StringClaim ''id-7'')) = Inr 7
      \<and> LoadWithUser ?b 7 = Inr example_identity
      \<and> ''rpt'' \<noteq> [] \<and> ParseToken ?b ''rpt'' = Inr example_claims
      \<and> FromString ?b (ClaimsId example_claims) = Inr 1
      \<and> Load ?b 1 = Inr (example_token\<lparr>IdentityID := 9\<rparr>)
      \<and> IdentityID (example_token\<lparr>IdentityID := 9\<rparr>) \<noteq> ID example_identity"
    by (simp add: example_defs status_defs ValidateToken_def ValidateToken_touch_def)
  have nb: "\<not> Banned (User example_identity)"
    by (simp add: example_defs)
  from C5_foreign_token_unauthorized
         [where e = ?a and resourceID = "''res-a''" and tokenString = "''rpt''"
            and tokenClaims = example_claims and tokenID = 1
            and loadedToken = "example_token\<lparr>IdentityID := 9\<rparr>"
            and identity = example_identity] a
  have first: "Audit ?a example_identity ''rpt'' ''res-a''
                 = (Fails (UnauthorizedError ''invalid token for identity''), [])"
    by blast
  from C5_foreign_token_unauthorized
         [where e = ?b and refreshToken = "''refresh''" and tkn = example_refresh
            and evs = "[TouchIdentity 7]" and sub = "StringClaim ''id-7''"
            and identityID = 7 and resolved = example_identity and rptToken = "''rpt''"
            and rptClaims = example_claims and rptID = 1
            and rptRecord = "example_token\<lparr>IdentityID := 9\<rparr>"] b nb
  have "ExchangeRefreshToken ?b ''refresh'' ''rpt''
          = (Fails (UnauthorizedError ''invalid token for identity''), [TouchIdentity 7])"
    by simp
  with first
  show ?thesis by simp
qed

text \<open>
  C6: for a token record that was loaded and belongs to the caller, both operations fail
  with the deprovisioned code when the DEPROVISIONED flag is set, whatever the other flags,
  the resource and the scopes are; and with the revoked code, the same for both flags, when
  REVOKED or LOGGED_OUT is set and DEPROVISIONED is not.  The two codes differ.
\<close>

theorem C6_status_codes:
  "(CheckExists e resourceID = None \<and> ReadTokenManagerFromContext e = None
      \<and> ParseToken e tokenString = Inr tokenClaims
      \<and> FromString e (ClaimsId tokenClaims) = Inr tokenID
      \<and> Load e tokenID = Inr loadedToken
      \<and> IdentityID loadedToken = ID identity
    \<longrightarrow> (HasStatus loadedToken TOKEN_STATUS_DEPROVISIONED
          \<longrightarrow> Audit e identity tokenString resourceID
                = (Fails (UnauthorizedErrorWithCode ''token banned''
                            UNAUTHORIZED_CODE_TOKEN_DEPROVISIONED), []))
        \<and> (\<not> HasStatus loadedToken TOKEN_STATUS_DEPROVISIONED
            \<and> (HasStatus loadedToken TOKEN_STATUS_REVOKED
                \<or> HasStatus loadedToken TOKEN_STATUS_LOGGED_OUT)
          \<longrightarrow> Audit e identity tokenString resourceID
                = (Fails (UnauthorizedErrorWithCode ''token revoked or logged out''
                            UNAUTHORIZED_CODE_TOKEN_REVOKED), [])))
   \<and> (Parse e refreshToken = Inr tkn \<and> ValidateToken e tkn = (Returns (), evs)
      \<and> Claims tkn ''sub'' = Some sub \<and> FromString e (Sprintf_s sub) = Inr identityID
      \<and> LoadWithUser e identityID = Inr resolved \<and> \<not> Banned (User resolved)
      \<and> rptToken \<noteq> [] \<and> ParseToken e rptToken = Inr rptClaims
      \<and> FromString e (ClaimsId rptClaims) = Inr rptID
      \<and> Load e rptID = Inr rptRecord
      \<and> IdentityID rptRecord = ID resolved
    \<longrightarrow> (HasStatus rptRecord TOKEN_STATUS_DEPROVISIONED
          \<longrightarrow> ExchangeRefreshToken e refreshToken rptToken
                = (Fails (UnauthorizedErrorWithCode ''token banned''
                            UNAUTHORIZED_CODE_TOKEN_DEPROVISIONED), evs))
        \<and> (\<not> HasStatus rptRecord TOKEN_STATUS_DEPROVISIONED
            \<and> (HasStatus rptRecord TOKEN_STATUS_REVOKED
                \<or> HasStatus rptRecord TOKEN_STATUS_LOGGED_OUT)
          \<longrightarrow> ExchangeRefreshToken e refreshToken rptToken
                = (Fails (UnauthorizedErrorWithCode ''token revoked or logged out''
                            UNAUTHORIZED_CODE_TOKEN_REVOKED), evs)))
   \<and> UNAUTHORIZED_CODE_TOKEN_DEPROVISIONED \<noteq> UNAUTHORIZED_CODE_TOKEN_REVOKED"
proof (intro conjI impI)
  assume h: "CheckExists e resourceID = None \<and> ReadTokenManagerFromContext e = None
      \<and> ParseToken e tokenString = Inr tokenClaims
      \<and> FromString e (ClaimsId tokenClaims) = Inr tokenID
      \<and> Load e tokenID = Inr loadedToken
      \<and> IdentityID loadedToken = ID identity"
  {
    assume d: "HasStatus loadedToken TOKEN_STATUS_DEPROVISIONED"
    then have "\<not> Valid loadedToken"
      by (simp add: HasStatus_not_Valid)
    with h d show "Audit e identity tokenString resourceID
                = (Fails (UnauthorizedErrorWithCode ''token banned''
                            UNAUTHORIZED_CODE_TOKEN_DEPROVISIONED), [])"
      by (simp add: Audit_def Audit_loaded_def)
  }
  {
    assume r: "\<not> HasStatus loadedToken TOKEN_STATUS_DEPROVISIONED
            \<and> (HasStatus loadedToken TOKEN_STATUS_REVOKED
                \<or> HasStatus loadedToken TOKEN_STATUS_LOGGED_OUT)"
    then have "\<not> Valid loadedToken"
      using HasStatus_not_Valid by blast
    with h r show "Audit e identity tokenString resourceID
                = (Fails (UnauthorizedErrorWithCode ''token revoked or logged out''
                            UNAUTHORIZED_CODE_TOKEN_REVOKED), [])"
      by (simp add: Audit_def Audit_loaded_def)
  }
next
  assume h: "Parse e refreshToken = Inr tkn \<and> ValidateToken e tkn = (Returns (), evs)
      \<and> Claims tkn ''sub'' = Some sub \<and> FromString e (Sprintf_s sub) = Inr identityID
      \<and> LoadWithUser e identityID = Inr resolved \<and> \<not> Banned (User resolved)
      \<and> rptToken \<noteq> [] \<and> ParseToken e rptToken = Inr rptClaims
      \<and> FromString e (ClaimsId rptClaims) = Inr rptID
      \<and> Load e rptID = Inr rptRecord
      \<and> IdentityID rptRecord = ID resolved"
  {
    assume "HasStatus rptRecord TOKEN_STATUS_DEPROVISIONED"
    with h show "ExchangeRefreshToken e refreshToken rptToken
                = (Fails (UnauthorizedErrorWithCode ''token banned''
                            UNAUTHORIZED_CODE_TOKEN_DEPROVISIONED), evs)"
      by (simp add: ExchangeRefreshToken_def Exchange_resolved_def Exchange_permissions_def)
  }
  {
    assume "\<not> HasStatus rptRecord TOKEN_STATUS_DEPROVISIONED
            \<and> (HasStatus rptRecord TOKEN_STATUS_REVOKED
                \<or> HasStatus rptRecord TOKEN_STATUS_LOGGED_OUT)"
    with h show "ExchangeRefreshToken e refreshToken rptToken
                = (Fails (UnauthorizedErrorWithCode ''token revoked or logged out''
                            UNAUTHORIZED_CODE_TOKEN_REVOKED), evs)"
      by (simp add: ExchangeRefreshToken_def Exchange_resolved_def Exchange_permissions_def)
  }
next
  show "UNAUTHORIZED_CODE_TOKEN_DEPROVISIONED \<noteq> UNAUTHORIZED_CODE_TOKEN_REVOKED"
    by simp
qed

theorem C6_witness:
  "Audit (example_env\<lparr>Load := (\<lambda>t. Inr (example_token\<lparr>Status := 9\<rparr>))\<rparr>)
     example_identity ''rpt'' ''res-a''
     = (Fails (UnauthorizedErrorWithCode ''token banned''
                 UNAUTHORIZED_CODE_TOKEN_DEPROVISIONED), [])
   \<and> Audit (example_env\<lparr>Load := (\<lambda>t. Inr (example_token\<lparr>Status := 12\<rparr>))\<rparr>)
       example_identity ''rpt'' ''res-a''
     = (Fails (UnauthorizedErrorWithCode ''token revoked or logged out''
                 UNAUTHORIZED_CODE_TOKEN_REVOKED), [])
   \<and> ExchangeRefreshToken
       (example_env\<lparr>Load := (\<lambda>t. if t = 1 then Inr (example_token\<lparr>Status := 9\<rparr>)
                                  else Inr example_refresh_record)\<rparr>) ''refresh'' ''rpt''
     = (Fails (UnauthorizedErrorWithCode ''token banned''
                 UNAUTHORIZED_CODE_TOKEN_DEPROVISIONED), [TouchIdentity 7])
   \<and> ExchangeRefreshToken
       (example_env\<lparr>Load := (\<lambda>t. if t = 1 then Inr (example_token\<lparr>Status := 2\<rparr>)
                                  else Inr example_refresh_record)\<rparr>) ''refresh'' ''rpt''
     = (Fails (UnauthorizedErrorWithCode ''token revoked or logged out''
                 UNAUTHORIZED_CODE_TOKEN_REVOKED), [TouchIdentity 7])"
proof -
  let ?a = "example_env\<lparr>Load := (\<lambda>t. Inr (example_token\<lparr>Status := 9\<rparr>))\<rparr>"
  let ?b = "example_env\<lparr>Load := (\<lambda>t. Inr (example_token\<lparr>Status := 12\<rparr>))\<rparr>"
  let ?c = "example_env\<lparr>Load := (\<lambda>t. if t = 1 then Inr (example_token\<lparr>Status := 9\<rparr>)
                                  else Inr example_refresh_record)\<rparr>"
  let ?d = "example_env\<lparr>Load := (\<lambda>t. if t = 1 then Inr (example_token\<lparr>Status := 2\<rparr>)
                                  else Inr example_refresh_record)\<rparr>"
  have a: "CheckExists ?a ''res-a'' = None \<and> ReadTokenManagerFromContext ?a = None
      \<and> ParseToken ?a ''rpt'' = Inr example_claims
      \<and> FromString ?a (ClaimsId example_claims) = Inr 1
      \<and> Load ?a 1 = Inr (example_token\<lparr>Status := 9\<rparr>)
      \<and> IdentityID (example_token\<lparr>Status := 9\<rparr>) = ID example_identity"
    and ad: "HasStatus (example_token\<lparr>Status := 9\<rparr>) TOKEN_STATUS_DEPROVISIONED"
    by (simp_all add: example_defs status_defs)
  have b: "CheckExists ?b ''res-a'' = None \<and> ReadTokenManagerFromContext ?b = None
      \<and> ParseToken ?b ''rpt'' = Inr example_claims
      \<and> FromString ?b (ClaimsId example_claims) = Inr 1
      \<and> Load ?b 1 = Inr (example_token\<lparr>Status := 12\<rparr>)
      \<and> IdentityID (example_token\<lparr>Status := 12\<rparr>) = ID example_identity"
    and bd: "\<not> HasStatus (example_token\<lparr>Status := 12\<rparr>) TOKEN_STATUS_DEPROVISIONED
      \<and> (HasStatus (example_token\<lparr>Status := 12\<rparr>) TOKEN_STATUS_REVOKED
          \<or> HasStatus (example_token\<lparr>Status := 12\<rparr>) TOKEN_STATUS_LOGGED_OUT)"
    by (simp_all add: example_defs status_defs)
  have c: "Parse ?c ''refresh'' = Inr example_refresh
      \<and> ValidateToken ?c example_refresh = (Returns (), [TouchIdentity 7])
      \<and> Claims example_refresh ''sub'' = Some (StringClaim ''id-7'')
      \<and> FromString ?c (Sprintf_s (StringClaim ''id-7'')) = Inr 7
      \<and> LoadWithUser ?c 7 = Inr example_identity \<and> \<not> Banned (User example_identity)
      \<and> ''rpt'' \<noteq> [] \<and> ParseToken ?c ''rpt'' = Inr example_claims
      \<and> FromString ?c (ClaimsId example_claims) = Inr 1
      \<and> Load ?c 1 = Inr (example_token\<lparr>Status := 9\<rparr>)
      \<and> IdentityID (example_token\<lparr>Status := 9\<rparr>) = ID example_identity"
    by (simp add: example_defs status_defs ValidateToken_def ValidateToken_touch_def)
  have d: "Parse ?d ''refresh'' = Inr example_refresh
      \<and> ValidateToken ?d example_refresh = (Returns (), [TouchIdentity 7])
      \<and> Claims example_refresh ''sub'' = Some (StringClaim ''id-7'')
      \<and> FromString ?d (Sprintf_s (StringClaim ''id-7'')) = Inr 7
      \<and> LoadWithUser ?d 7 = Inr example_identity \<and> \<not> Banned (User example_identity)
      \<and> ''rpt'' \<noteq> [] \<and> ParseToken ?d ''rpt'' = Inr example_claims
      \<and> FromString ?d (ClaimsId example_claims) = Inr 1
      \<and> Load ?d 1 = Inr (example_token\<lparr>Status := 2\<rparr>)
      \<and> IdentityID (example_token\<lparr>Status := 2\<rparr>) = ID example_identity"
    and dd: "\<not> HasStatus (example_token\<lparr>Status := 2\<rparr>) TOKEN_STATUS_DEPROVISIONED
      \<and> (HasStatus (example_token\<lparr>Status := 2\<rparr>) TOKEN_STATUS_REVOKED
          \<or> HasStatus (example_token\<lparr>Status := 2\<rparr>) TOKEN_STATUS_LOGGED_OUT)"
    by (simp_all add: example_defs status_defs ValidateToken_def ValidateToken_touch_def)
  from C6_status_codes
         [where e = ?a and resourceID = "''res-a''" and tokenString = "''rpt''"
            and tokenClaims = example_claims and tokenID = 1
            and loadedToken = "example_token\<lparr>Status := 9\<rparr>"
            and identity = example_identity] a ad
  have 1: "Audit ?a example_identity ''rpt'' ''res-a''
     = (Fails (UnauthorizedErrorWithCode ''token banned''
                 UNAUTHORIZED_CODE_TOKEN_DEPROVISIONED), [])"
    by blast
  from C6_status_codes
         [where e = ?b and resourceID = "''res-a''" and tokenString = "''rpt''"
            and tokenClaims = example_claims and tokenID = 1
            and loadedToken = "example_token\<lparr>Status := 12\<rparr>"
            and identity = example_identity] b bd
  have 2: "Audit ?b example_identity ''rpt'' ''res-a''
     = (Fails (UnauthorizedErrorWithCode ''token revoked or logged out''
                 UNAUTHORIZED_CODE_TOKEN_REVOKED), [])"
    by blast
  from C6_status_codes
         [where e = ?c and refreshToken = "''refresh''" and tkn = example_refresh
            and evs = "[TouchIdentity 7]" and sub = "StringClaim ''id-7''"
            and identityID = 7 and resolved = example_identity and rptToken = "''rpt''"
            and rptClaims = example_claims and rptID = 1
            and rptRecord = "example_token\<lparr>Status := 9\<rparr>"] c ad
  have 3: "ExchangeRefreshToken ?c ''refresh'' ''rpt''
     = (Fails (UnauthorizedErrorWithCode ''token banned''
                 UNAUTHORIZED_CODE_TOKEN_DEPROVISIONED), [TouchIdentity 7])"
    by blast
  from C6_status_codes
         [where e = ?d and refreshToken = "''refresh''" and tkn = example_refresh
            and evs = "[TouchIdentity 7]" and sub = "StringClaim ''id-7''"
            and identityID = 7 and resolved = example_identity and rptToken = "''rpt''"
            and rptClaims = example_claims and rptID = 1
            and rptRecord = "example_token\<lparr>Status := 2\<rparr>"] d dd
  have 4: "ExchangeRefreshToken ?d ''refresh'' ''rpt''
     = (Fails (UnauthorizedErrorWithCode ''token revoked or logged out''
                 UNAUTHORIZED_CODE_TOKEN_REVOKED), [TouchIdentity 7])"
    by blast
  from 1 2 3 4 show ?thesis by blast
qed

subsection \<open>Revalidation of a stale token\<close>

lemma compare_permissions_unchanged:
  "\<forall>p\<in>set ps. \<exists>c. CachedPrivileges e i (ResourceSetID p) = Inr c
        \<and> scopesEquivalent (Scopes p) (ScopesAsArray c)
        \<and> resourceFound (ResourceSetID p) privs
   \<Longrightarrow> compare_permissions e i privs ps = Inr (False, False)"
  by (induction ps) auto

lemma compare_permissions_False:
  "compare_permissions e i privs ps = Inr (False, False)
   \<Longrightarrow> \<forall>p\<in>set ps. \<exists>c. CachedPrivileges e i (ResourceSetID p) = Inr c
          \<and> scopesEquivalent (Scopes p) (ScopesAsArray c)
          \<and> resourceFound (ResourceSetID p) privs"
  by (induction ps) (auto split: sum.splits if_splits)

lemma compare_permissions_total:
  "\<forall>p\<in>set ps. \<exists>c. CachedPrivileges e i (ResourceSetID p) = Inr c
   \<Longrightarrow> compare_permissions e i privs ps
         \<in> {Inr (False, False), Inr (True, False), Inr (False, True)}"
  by (induction ps) auto

lemma compare_permissions_changed:
  assumes "\<forall>p\<in>set ps. \<exists>c. CachedPrivileges e i (ResourceSetID p) = Inr c"
    and "\<exists>p\<in>set ps. \<exists>c. CachedPrivileges e i (ResourceSetID p) = Inr c
          \<and> \<not> scopesEquivalent (Scopes p) (ScopesAsArray c)"
  shows "compare_permissions e i privs ps = Inr (True, False)
       \<or> compare_permissions e i privs ps = Inr (False, True)"
proof -
  from assms(2) have "compare_permissions e i privs ps \<noteq> Inr (False, False)"
    using compare_permissions_False [of e i privs ps] by fastforce
  with compare_permissions_total [OF assms(1), of privs] show ?thesis
    by auto
qed

lemma stale_only:
  "Status t = TOKEN_STATUS_STALE \<Longrightarrow>
     \<not> Valid t \<and> \<not> HasStatus t TOKEN_STATUS_DEPROVISIONED \<and> \<not> HasStatus t TOKEN_STATUS_REVOKED
     \<and> \<not> HasStatus t TOKEN_STATUS_LOGGED_OUT \<and> HasStatus t TOKEN_STATUS_STALE"
  by (simp add: status_defs)

text \<open>
  C3, as stated, fails on scope lists with a repeated entry.  The token embeds the scopes
  \<open>[read, read]\<close> for the requested resource, its only flag is STALE, and one privilege
  is persisted.  With the live scopes \<open>[read]\<close> the two scope sets are equal, yet Audit
  mints a new token, because the lengths differ.  With the live scopes \<open>[read, write]\<close>
  the two scope sets differ, yet Audit resets the status and returns \<^verbatim>\<open>(nil, nil)\<close>,
  because only the embedded scopes are looked up in the live ones.
\<close>

theorem C3_counterexample:
  "fst (Audit (example_dup_env [''read'']) example_identity ''rpt'' ''res-a'')
     = Returns (Some ''signed'')
   \<and> set [''read'', ''read''] = set [''read'']
   \<and> Audit (example_dup_env [''read'', ''write'']) example_identity ''rpt'' ''res-a''
     = (Returns None, [SaveToken example_token])
   \<and> set [''read'', ''read''] \<noteq> set [''read'', ''write'']"
  by (simp add: Audit_def Audit_loaded_def resourceExistsIn_def resourceFound_def
      scopesEquivalent_def example_defs status_defs mint_defs)

text \<open>
  C3, amended: for a loaded token of the caller whose only flag is STALE and which embeds
  the requested resource, and for scope lists without repeated entries.  If the persisted
  privilege count equals the embedded permission count and every embedded permission has a
  live cache entry with the same scope set and a persisted privilege of its resource, Audit
  issues the save of the token with status 0 and returns \<^verbatim>\<open>(nil, nil)\<close> once the save
  succeeds (the save's error, wrapped as internal, otherwise).  If the counts differ, or if
  every embedded permission has a live cache entry and for one of them the scope sets differ,
  Audit runs the mint path.
\<close>

theorem C3_stale_token_revalidation:
  assumes "CheckExists e resourceID = None"
    and "ReadTokenManagerFromContext e = None"
    and "ParseToken e tokenString = Inr tokenClaims"
    and "FromString e (ClaimsId tokenClaims) = Inr tokenID"
    and "Load e tokenID = Inr loadedToken"
    and "IdentityID loadedToken = ID identity"
    and "Status loadedToken = TOKEN_STATUS_STALE"
    and "ClaimsPermissions tokenClaims = Some tokenPermissions"
    and "resourceID \<in> ResourceSetID ` set tokenPermissions"
    and "ListPrivileges e tokenID = Inr privileges"
  shows "(length privileges = length tokenPermissions
          \<and> (\<forall>p\<in>set tokenPermissions.
                \<exists>c. CachedPrivileges e (ID identity) (ResourceSetID p) = Inr c
                  \<and> distinct (Scopes p) \<and> distinct (ScopesAsArray c)
                  \<and> set (Scopes p) = set (ScopesAsArray c)
                  \<and> ResourceSetID p \<in> ResourceID ` set privileges)
          \<longrightarrow> Audit e identity tokenString resourceID
                = (case Save e (loadedToken\<lparr>Status := 0\<rparr>) of
                     None \<Rightarrow> Returns None
                   | Some err \<Rightarrow> Fails (InternalError err),
                   [SaveToken (loadedToken\<lparr>Status := 0\<rparr>)]))
       \<and> (length privileges \<noteq> length tokenPermissions
          \<longrightarrow> Audit e identity tokenString resourceID
                = Audit_mint e identity tokenClaims (Some loadedToken) resourceID)
       \<and> ((\<forall>p\<in>set tokenPermissions.
                \<exists>c. CachedPrivileges e (ID identity) (ResourceSetID p) = Inr c
                  \<and> distinct (Scopes p) \<and> distinct (ScopesAsArray c))
          \<and> (\<exists>p\<in>set tokenPermissions.
                \<exists>c. CachedPrivileges e (ID identity) (ResourceSetID p) = Inr c
                  \<and> set (Scopes p) \<noteq> set (ScopesAsArray c))
          \<longrightarrow> Audit e identity tokenString resourceID
                = Audit_mint e identity tokenClaims (Some loadedToken) resourceID)"
proof -
  let ?mint = "Audit_mint e identity tokenClaims (Some loadedToken) resourceID"
  let ?cmp = "if length privileges \<noteq> length tokenPermissions then Inr (False, True)
              else compare_permissions e (ID identity) privileges tokenPermissions"
  have st: "\<not> Valid loadedToken" "\<not> HasStatus loadedToken TOKEN_STATUS_DEPROVISIONED"
    "\<not> HasStatus loadedToken TOKEN_STATUS_REVOKED"
    "\<not> HasStatus loadedToken TOKEN_STATUS_LOGGED_OUT"
    "HasStatus loadedToken TOKEN_STATUS_STALE"
    using stale_only [OF assms(7)] by simp_all
  have run: "Audit e identity tokenString resourceID
      = (case ?cmp of
           Inl err \<Rightarrow> (Fails err, [])
         | Inr (scopesChanged, permissionsChanged) \<Rightarrow>
             if \<not> scopesChanged \<and> \<not> permissionsChanged
             then (case Save e (loadedToken\<lparr>Status := 0\<rparr>) of
                     Some err \<Rightarrow>
                       (Fails (InternalError err), [SaveToken (loadedToken\<lparr>Status := 0\<rparr>)])
                   | None \<Rightarrow> (Returns None, [SaveToken (loadedToken\<lparr>Status := 0\<rparr>)]))
             else ?mint)"
    using assms st by (simp add: Audit_def Audit_loaded_def resourceExistsIn_iff)
  have reset: "Audit e identity tokenString resourceID
                = (case Save e (loadedToken\<lparr>Status := 0\<rparr>) of
                     None \<Rightarrow> Returns None
                   | Some err \<Rightarrow> Fails (InternalError err),
                   [SaveToken (loadedToken\<lparr>Status := 0\<rparr>)])"
    if len: "length privileges = length tokenPermissions"
      and same: "\<forall>p\<in>set tokenPermissions.
                \<exists>c. CachedPrivileges e (ID identity) (ResourceSetID p) = Inr c
                  \<and> distinct (Scopes p) \<and> distinct (ScopesAsArray c)
                  \<and> set (Scopes p) = set (ScopesAsArray c)
                  \<and> ResourceSetID p \<in> ResourceID ` set privileges"
  proof -
    from same have "\<forall>p\<in>set tokenPermissions.
        \<exists>c. CachedPrivileges e (ID identity) (ResourceSetID p) = Inr c
          \<and> scopesEquivalent (Scopes p) (ScopesAsArray c)
          \<and> resourceFound (ResourceSetID p) privileges"
      by (metis resourceFound_iff scopesEquivalent_distinct)
    then have "compare_permissions e (ID identity) privileges tokenPermissions
                 = Inr (False, False)"
      by (rule compare_permissions_unchanged)
    with len show ?thesis
      by (simp add: run split: option.splits)
  qed
  have count: "Audit e identity tokenString resourceID = ?mint"
    if "length privileges \<noteq> length tokenPermissions"
    using that by (simp add: run)
  have scopes: "Audit e identity tokenString resourceID = ?mint"
    if ok: "\<forall>p\<in>set tokenPermissions.
                \<exists>c. CachedPrivileges e (ID identity) (ResourceSetID p) = Inr c
                  \<and> distinct (Scopes p) \<and> distinct (ScopesAsArray c)"
      and diff: "\<exists>p\<in>set tokenPermissions.
                \<exists>c. CachedPrivileges e (ID identity) (ResourceSetID p) = Inr c
                  \<and> set (Scopes p) \<noteq> set (ScopesAsArray c)"
  proof (cases "length privileges = length tokenPermissions")
    case False
    then show ?thesis by (rule count)
  next
    case True
    from ok have all: "\<forall>p\<in>set tokenPermissions.
        \<exists>c. CachedPrivileges e (ID identity) (ResourceSetID p) = Inr c"
      by blast
    from diff obtain p c where p: "p \<in> set tokenPermissions"
      and c: "CachedPrivileges e (ID identity) (ResourceSetID p) = Inr c"
      and ne: "set (Scopes p) \<noteq> set (ScopesAsArray c)"
      by blast
    from ok p c have "distinct (Scopes p)" "distinct (ScopesAsArray c)"
      by auto
    with ne have "\<not> scopesEquivalent (Scopes p) (ScopesAsArray c)"
      by (simp add: scopesEquivalent_distinct)
    with p c have "\<exists>p\<in>set tokenPermissions.
        \<exists>c. CachedPrivileges e (ID identity) (ResourceSetID p) = Inr c
          \<and> \<not> scopesEquivalent (Scopes p) (ScopesAsArray c)"
      by blast
    from compare_permissions_changed [OF all this]
    have "compare_permissions e (ID identity) privileges tokenPermissions = Inr (True, False)
        \<or> compare_permissions e (ID identity) privileges tokenPermissions = Inr (False, True)" .
    with True show ?thesis
      by (auto simp: run)
  qed
  from reset count scopes show ?thesis
    by blast
qed

theorem C3_witness:
  "Audit (example_env\<lparr>Load := (\<lambda>t. Inr (example_token\<lparr>Status := 8\<rparr>))\<rparr>)
     example_identity ''rpt'' ''res-a''
     = (Returns None, [SaveToken example_token])
   \<and> fst (Audit (example_env\<lparr>Load := (\<lambda>t. Inr (example_token\<lparr>Status := 8\<rparr>)),
                             ListPrivileges := (\<lambda>t. Inr [hd example_privileges])\<rparr>)
            example_identity ''rpt'' ''res-a'')
     = Returns (Some ''signed'')
   \<and> fst (Audit (example_env\<lparr>Load := (\<lambda>t. Inr (example_token\<lparr>Status := 8\<rparr>)),
                             CachedPrivileges :=
                               (\<lambda>i r. Inr (example_priv 31 r [''admin''] 150 False))\<rparr>)
            example_identity ''rpt'' ''res-a'')
     = Returns (Some ''signed'')"
proof -
  let ?t = "example_token\<lparr>Status := 8\<rparr>"
  let ?ps = "[\<lparr>ResourceSetID = ''res-a'', Scopes = [''read'', ''write''], Expiry = 100\<rparr>,
              \<lparr>ResourceSetID = ''res-b'', Scopes = [''read''], Expiry = 200\<rparr>]"
  let ?a = "example_env\<lparr>Load := (\<lambda>t. Inr ?t)\<rparr>"
  let ?b = "example_env\<lparr>Load := (\<lambda>t. Inr ?t),
                        ListPrivileges := (\<lambda>t. Inr [hd example_privileges])\<rparr>"
  let ?c = "example_env\<lparr>Load := (\<lambda>t. Inr ?t),
                        CachedPrivileges :=
                          (\<lambda>i r. Inr (example_priv 31 r [''admin''] 150 False))\<rparr>"
  have tok: "IdentityID ?t = ID example_identity" "Status ?t = TOKEN_STATUS_STALE"
    "ClaimsPermissions example_claims = Some ?ps" "''res-a'' \<in> ResourceSetID ` set ?ps"
    by (simp_all add: example_defs status_defs)
  have a: "CheckExists ?a ''res-a'' = None" "ReadTokenManagerFromContext ?a = None"
    "ParseToken ?a ''rpt'' = Inr example_claims"
    "FromString ?a (ClaimsId example_claims) = Inr 1" "Load ?a 1 = Inr ?t"
    "ListPrivileges ?a 1 = Inr example_privileges"
    by (simp_all add: example_defs)
  have b: "CheckExists ?b ''res-a'' = None" "ReadTokenManagerFromContext ?b = None"
    "ParseToken ?b ''rpt'' = Inr example_claims"
    "FromString ?b (ClaimsId example_claims) = Inr 1" "Load ?b 1 = Inr ?t"
    "ListPrivileges ?b 1 = Inr [hd example_privileges]"
    by (simp_all add: example_defs)
  have c: "CheckExists ?c ''res-a'' = None" "ReadTokenManagerFromContext ?c = None"
    "ParseToken ?c ''rpt'' = Inr example_claims"
    "FromString ?c (ClaimsId example_claims) = Inr 1" "Load ?c 1 = Inr ?t"
    "ListPrivileges ?c 1 = Inr example_privileges"
    by (simp_all add: example_defs)
  have same: "length example_privileges = length ?ps
          \<and> (\<forall>p\<in>set ?ps.
                \<exists>c. CachedPrivileges ?a (ID example_identity) (ResourceSetID p) = Inr c
                  \<and> distinct (Scopes p) \<and> distinct (ScopesAsArray c)
                  \<and> set (Scopes p) = set (ScopesAsArray c)
                  \<and> ResourceSetID p \<in> ResourceID ` set example_privileges)"
    by (auto simp: example_defs)
  have count: "length [hd example_privileges] \<noteq> length ?ps"
    by simp
  have diff: "(\<forall>p\<in>set ?ps.
                \<exists>c. CachedPrivileges ?c (ID example_identity) (ResourceSetID p) = Inr c
                  \<and> distinct (Scopes p) \<and> distinct (ScopesAsArray c))
          \<and> (\<exists>p\<in>set ?ps.
                \<exists>c. CachedPrivileges ?c (ID example_identity) (ResourceSetID p) = Inr c
                  \<and> set (Scopes p) \<noteq> set (ScopesAsArray c))"
    by (simp add: example_defs)
  have save: "Save ?a (?t\<lparr>Status := 0\<rparr>) = None" "?t\<lparr>Status := 0\<rparr> = example_token"
    by (simp_all add: example_defs)
  from C3_stale_token_revalidation [OF a(1-5) tok a(6)] same save
  have 1: "Audit ?a example_identity ''rpt'' ''res-a'' = (Returns None, [SaveToken example_token])"
    by simp
  from C3_stale_token_revalidation [OF b(1-5) tok b(6)] count
  have "Audit ?b example_identity ''rpt'' ''res-a''
          = Audit_mint ?b example_identity example_claims (Some ?t) ''res-a''"
    by blast
  then have 2: "fst (Audit ?b example_identity ''rpt'' ''res-a'') = Returns (Some ''signed'')"
    by (simp add: example_defs mint_defs)
  from C3_stale_token_revalidation [OF c(1-5) tok c(6)] diff
  have "Audit ?c example_identity ''rpt'' ''res-a''
          = Audit_mint ?c example_identity example_claims (Some ?t) ''res-a''"
    by blast
  then have 3: "fst (Audit ?c example_identity ''rpt'' ''res-a'') = Returns (Some ''signed'')"
    by (simp add: example_defs mint_defs)
  from 1 2 3 show ?thesis by blast
qed

subsection \<open>The mint path of Audit\<close>

lemma create_privileges_events:
  "create_privileges e t ps = (r, evs) \<Longrightarrow> ev \<in> set evs \<Longrightarrow> is_registration ev"
  by (induction ps arbitrary: r evs) (auto simp: Let_def split: option.splits prod.splits)

lemma RegisterToken_events:
  "RegisterToken e i s ty ps = (r, evs) \<Longrightarrow> ev \<in> set evs \<Longrightarrow> is_registration ev"
  by (auto simp: RegisterToken_def Let_def
      split: sum.splits option.splits prod.splits dest: create_privileges_events)

lemma Audit_generate_GenerateRPT:
  assumes "GenerateRPT c i ps \<in> set (snd (Audit_generate e idn cl perms privs))"
  shows "ps = perms"
  using assms
  by (auto simp: Audit_generate_def
      split: sum.splits prod.splits outcome.splits option.splits
      dest: RegisterToken_events create_privileges_events)

lemma Audit_migrate_shape:
  "Audit_migrate e i r xs perms privs = Inr (perms', privs')
   \<Longrightarrow> \<exists>ms. perms' = perms @ ms
          \<and> list_all2 (migrated_entry e i) ms
              (take (nat (GetRPTTokenMaxPermissions e - int (length perms)))
                 (filter (\<lambda>p. ResourceID p \<noteq> r) xs))"
proof (induction xs arbitrary: perms privs)
  case Nil
  then show ?case by simp
next
  case (Cons x xs)
  let ?M = "GetRPTTokenMaxPermissions e"
  show ?case
  proof (cases "int (length perms) \<ge> ?M")
    case True
    with Cons.prems show ?thesis by simp
  next
    case room: False
    then have suc: "nat (?M - int (length perms)) = Suc (nat (?M - int (length perms) - 1))"
      by simp
    show ?thesis
    proof (cases "ResourceID x = r")
      case True
      with room Cons.prems Cons.IH [of perms privs] show ?thesis
        by simp
    next
      case other: False
      show ?thesis
      proof (cases "Stale x")
        case True
        with room other Cons.prems obtain c where
          c: "CachedPrivileges e i (ResourceID x) = Inr c"
          and rest: "Audit_migrate e i r xs
               (perms @ [\<lparr>ResourceSetID = ResourceID x, Scopes = ScopesAsArray c,
                           Expiry = Unix (ExpiryTime c)\<rparr>])
               (privs @ [\<lparr>PrivTokenID = uuid_Nil,
                           PrivPrivilegeCacheID = PrivilegeCacheID x\<rparr>]) = Inr (perms', privs')"
          by (auto split: sum.splits)
        from Cons.IH [OF rest] obtain ms where
          ms: "perms' = (perms @ [\<lparr>ResourceSetID = ResourceID x, Scopes = ScopesAsArray c,
                           Expiry = Unix (ExpiryTime c)\<rparr>]) @ ms"
          and all: "list_all2 (migrated_entry e i) ms
              (take (nat (?M - int (length perms) - 1))
                 (filter (\<lambda>p. ResourceID p \<noteq> r) xs))"
          by (auto simp: algebra_simps)
        have "migrated_entry e i \<lparr>ResourceSetID = ResourceID x, Scopes = ScopesAsArray c,
                           Expiry = Unix (ExpiryTime c)\<rparr> x"
          using True c by (simp add: migrated_entry_def)
        with ms all other suc show ?thesis
          by simp
      next
        case False
        with room other Cons.prems have
          rest: "Audit_migrate e i r xs
               (perms @ [\<lparr>ResourceSetID = ResourceID x, Scopes = ScopesAsArray x,
                           Expiry = Unix (ExpiryTime x)\<rparr>])
               (privs @ [\<lparr>PrivTokenID = uuid_Nil,
                           PrivPrivilegeCacheID = PrivilegeCacheID x\<rparr>]) = Inr (perms', privs')"
          by simp
        from Cons.IH [OF rest] obtain ms where
          ms: "perms' = (perms @ [\<lparr>ResourceSetID = ResourceID x, Scopes = ScopesAsArray x,
                           Expiry = Unix (ExpiryTime x)\<rparr>]) @ ms"
          and all: "list_all2 (migrated_entry e i) ms
              (take (nat (?M - int (length perms) - 1))
                 (filter (\<lambda>p. ResourceID p \<noteq> r) xs))"
          by (auto simp: algebra_simps)
        have "migrated_entry e i \<lparr>ResourceSetID = ResourceID x, Scopes = ScopesAsArray x,
                           Expiry = Unix (ExpiryTime x)\<rparr> x"
          using False by (simp add: migrated_entry_def)
        with ms all other suc show ?thesis
          by simp
      qed
    qed
  qed
qed

lemma migrated_entry_resources:
  "list_all2 (migrated_entry e i) ms olds \<Longrightarrow> map ResourceSetID ms = map ResourceID olds"
  by (induction rule: list_all2_induct) (simp_all add: migrated_entry_def)

lemma sorted_wrt_take_drop:
  assumes "sorted_wrt P xs"
  shows "\<forall>a\<in>set (take n xs). \<forall>b\<in>set (drop n xs). P a b"
proof -
  from assms have "sorted_wrt P (take n xs @ drop n xs)"
    by simp
  then show ?thesis
    unfolding sorted_wrt_append by blast
qed

lemma Audit_mint_permissions:
  assumes "GenerateRPT c i perms
             \<in> set (snd (Audit_mint e identity tokenClaims (Some loadedToken) resourceID))"
    and "ListPrivileges e (TokenID loadedToken) = Inr oldTokenPrivs"
  shows "\<exists>privilegeCache ms.
           CachedPrivileges e (ID identity) resourceID = Inr privilegeCache
           \<and> perms = \<lparr>ResourceSetID = resourceID, Scopes = ScopesAsArray privilegeCache,
                       Expiry = Unix (ExpiryTime privilegeCache)\<rparr> # ms
           \<and> list_all2 (migrated_entry e (ID identity)) ms
               (take (nat (GetRPTTokenMaxPermissions e - 1))
                  (filter (\<lambda>p. ResourceID p \<noteq> resourceID)
                     (sort_Slice e (\<lambda>a b. After (ExpiryTime a) (ExpiryTime b))
                        oldTokenPrivs)))"
proof -
  let ?sorted = "sort_Slice e (\<lambda>a b. After (ExpiryTime a) (ExpiryTime b)) oldTokenPrivs"
  from assms(1) obtain pc where pc: "CachedPrivileges e (ID identity) resourceID = Inr pc"
    by (cases "CachedPrivileges e (ID identity) resourceID") (auto simp: Audit_mint_def)
  let ?first = "\<lparr>ResourceSetID = resourceID, Scopes = ScopesAsArray pc,
                  Expiry = Unix (ExpiryTime pc)\<rparr>"
  let ?priv = "\<lparr>PrivTokenID = uuid_Nil, PrivPrivilegeCacheID = PrivilegeCacheID pc\<rparr>"
  from assms pc obtain perms' privs' where
    mig: "Audit_migrate e (ID identity) resourceID ?sorted [?first] [?priv] = Inr (perms', privs')"
    and gen: "GenerateRPT c i perms
                \<in> set (snd (Audit_generate e identity tokenClaims perms' privs'))"
    by (cases "Audit_migrate e (ID identity) resourceID ?sorted [?first] [?priv]")
       (auto simp: Audit_mint_def Let_def)
  from gen have "perms = perms'"
    by (rule Audit_generate_GenerateRPT)
  with Audit_migrate_shape [OF mig] pc show ?thesis
    by auto
qed

lemma mset_insert_by: "mset (insert_by lt x xs) = add_mset x (mset xs)"
  by (induction xs) auto

lemma mset_insertion_sort: "mset (insertion_sort lt xs) = mset xs"
  by (induction xs) (auto simp: mset_insert_by)

text \<open>
  C2: when the mint path of Audit runs with a previous token record and reaches the token
  manager's generation step, the permission list it passes starts with the requested
  resource, with the scopes and the expiry the privilege cache returns for it.  The rest
  are the historical privileges of the previous token in the order \<^verbatim>\<open>sort.Slice\<close> leaves
  them, latest expiry first, without those of the requested resource, cut after the
  configured maximum minus one; each entry keeps its resource and has the historical scopes
  and expiry, or the cached ones when the privilege is stale.  The requested resource does
  not occur again.  With twelve historical privileges, a maximum of five and the requested
  resource not among them, the list has five entries: the requested resource and the first
  four of the sorted privileges, none of which expires before any of the other eight.
  \<^verbatim>\<open>sort.Slice\<close> is assumed to return a permutation that is sorted for its comparison.
\<close>

theorem C2_mint_permission_list:
  assumes gen: "GenerateRPT c i perms
             \<in> set (snd (Audit_mint e identity tokenClaims (Some loadedToken) resourceID))"
    and list: "ListPrivileges e (TokenID loadedToken) = Inr oldTokenPrivs"
    and srt: "sorted_wrt (\<lambda>a b. \<not> After (ExpiryTime b) (ExpiryTime a))
            (sort_Slice e (\<lambda>a b. After (ExpiryTime a) (ExpiryTime b)) oldTokenPrivs)"
    and prm: "mset (sort_Slice e (\<lambda>a b. After (ExpiryTime a) (ExpiryTime b)) oldTokenPrivs)
            = mset oldTokenPrivs"
  shows "(\<exists>privilegeCache.
            CachedPrivileges e (ID identity) resourceID = Inr privilegeCache
            \<and> perms \<noteq> []
            \<and> hd perms = \<lparr>ResourceSetID = resourceID, Scopes = ScopesAsArray privilegeCache,
                           Expiry = Unix (ExpiryTime privilegeCache)\<rparr>)
       \<and> list_all2 (migrated_entry e (ID identity)) (tl perms)
           (take (nat (GetRPTTokenMaxPermissions e - 1))
              (filter (\<lambda>p. ResourceID p \<noteq> resourceID)
                 (sort_Slice e (\<lambda>a b. After (ExpiryTime a) (ExpiryTime b)) oldTokenPrivs)))
       \<and> resourceID \<notin> ResourceSetID ` set (tl perms)
       \<and> (length oldTokenPrivs = 12 \<and> GetRPTTokenMaxPermissions e = 5
            \<and> resourceID \<notin> ResourceID ` set oldTokenPrivs
          \<longrightarrow> length perms = 5
              \<and> map ResourceSetID (tl perms)
                  = map ResourceID
                      (take 4 (sort_Slice e (\<lambda>a b. After (ExpiryTime a) (ExpiryTime b))
                                 oldTokenPrivs))
              \<and> (\<forall>a\<in>set (take 4 (sort_Slice e (\<lambda>a b. After (ExpiryTime a) (ExpiryTime b))
                                     oldTokenPrivs)).
                    \<forall>b\<in>set (drop 4 (sort_Slice e (\<lambda>a b. After (ExpiryTime a) (ExpiryTime b))
                                       oldTokenPrivs)).
                      ExpiryTime b \<le> ExpiryTime a))"
proof -
  let ?sorted = "sort_Slice e (\<lambda>a b. After (ExpiryTime a) (ExpiryTime b)) oldTokenPrivs"
  let ?others = "filter (\<lambda>p. ResourceID p \<noteq> resourceID) ?sorted"
  let ?kept = "take (nat (GetRPTTokenMaxPermissions e - 1)) ?others"
  from Audit_mint_permissions [OF gen list] obtain pc ms where
    pc: "CachedPrivileges e (ID identity) resourceID = Inr pc"
    and perms: "perms = \<lparr>ResourceSetID = resourceID, Scopes = ScopesAsArray pc,
                         Expiry = Unix (ExpiryTime pc)\<rparr> # ms"
    and all: "list_all2 (migrated_entry e (ID identity)) ms ?kept"
    by blast
  from perms have tl: "tl perms = ms" and ne: "perms \<noteq> []"
    and hd: "hd perms = \<lparr>ResourceSetID = resourceID, Scopes = ScopesAsArray pc,
                         Expiry = Unix (ExpiryTime pc)\<rparr>"
    by simp_all
  from all have ids: "map ResourceSetID ms = map ResourceID ?kept"
    by (rule migrated_entry_resources)
  have keep: "ResourceID p \<noteq> resourceID" if "p \<in> set ?kept" for p
  proof -
    from that have "p \<in> set ?others"
      by (rule in_set_takeD)
    then show ?thesis
      by simp
  qed
  have once: "resourceID \<notin> ResourceSetID ` set ms"
  proof
    assume "resourceID \<in> ResourceSetID ` set ms"
    then have "resourceID \<in> set (map ResourceSetID ms)"
      by simp
    then have "resourceID \<in> set (map ResourceID ?kept)"
      by (simp only: ids)
    then obtain p where "p \<in> set ?kept" "ResourceID p = resourceID"
      by auto
    with keep show False
      by blast
  qed
  have scenario: "length perms = 5
      \<and> map ResourceSetID (tl perms) = map ResourceID (take 4 ?sorted)
      \<and> (\<forall>a\<in>set (take 4 ?sorted). \<forall>b\<in>set (drop 4 ?sorted). ExpiryTime b \<le> ExpiryTime a)"
    if twelve: "length oldTokenPrivs = 12" and five: "GetRPTTokenMaxPermissions e = 5"
      and fresh: "resourceID \<notin> ResourceID ` set oldTokenPrivs"
  proof -
    from prm have same: "set ?sorted = set oldTokenPrivs"
      by (rule mset_eq_setD)
    from prm have "length ?sorted = length oldTokenPrivs"
      by (rule mset_eq_length)
    with twelve have len: "length ?sorted = 12"
      by simp
    from fresh same have "\<forall>p\<in>set ?sorted. ResourceID p \<noteq> resourceID"
      by auto
    then have "?others = ?sorted"
      by (simp add: filter_id_conv)
    with five have kept: "?kept = take 4 ?sorted"
      by simp
    from all have "length ms = length ?kept"
      by (rule list_all2_lengthD)
    with kept len have four: "length ms = 4"
      by simp
    from sorted_wrt_take_drop [OF srt, of 4]
    have late: "\<forall>a\<in>set (take 4 ?sorted). \<forall>b\<in>set (drop 4 ?sorted). ExpiryTime b \<le> ExpiryTime a"
      by (simp add: After_def not_less)
    from perms four have "length perms = 5"
      by simp
    moreover from ids kept tl have "map ResourceSetID (tl perms) = map ResourceID (take 4 ?sorted)"
      by simp
    ultimately show ?thesis
      using late by blast
  qed
  have first: "\<exists>privilegeCache.
            CachedPrivileges e (ID identity) resourceID = Inr privilegeCache
            \<and> perms \<noteq> []
            \<and> hd perms = \<lparr>ResourceSetID = resourceID, Scopes = ScopesAsArray privilegeCache,
                           Expiry = Unix (ExpiryTime privilegeCache)\<rparr>"
    using pc ne hd by blast
  from all tl have rest: "list_all2 (migrated_entry e (ID identity)) (tl perms) ?kept"
    by simp
  from once tl have once': "resourceID \<notin> ResourceSetID ` set (tl perms)"
    by simp
  show ?thesis
    using first rest once' scenario by (intro conjI impI) blast+
qed

theorem C2_witness:
  "GenerateRPT example_claims example_identity example_minted
     \<in> set (snd (Audit_mint (example_env\<lparr>ListPrivileges := (\<lambda>t. Inr example_history)\<rparr>)
                   example_identity example_claims (Some example_token) ''res-c''))
   \<and> length example_minted = 5
   \<and> map ResourceSetID (tl example_minted) = [''r08'', ''r05'', ''r03'', ''r12'']
   \<and> map ResourceID
         (take 4 (insertion_sort (\<lambda>a b. After (ExpiryTime a) (ExpiryTime b)) example_history))
       = [''r08'', ''r05'', ''r03'', ''r12'']"
proof -
  let ?e = "example_env\<lparr>ListPrivileges := (\<lambda>t. Inr example_history)\<rparr>"
  let ?lt = "\<lambda>a b. After (ExpiryTime a) (ExpiryTime b)"
  have srt: "sort_Slice ?e = insertion_sort"
    by (simp add: example_env_def)
  have sorted: "insertion_sort ?lt example_history =
     [example_priv 48 ''r08'' [''read'', ''write''] 780 False,
      example_priv 45 ''r05'' [''write''] 750 False,
      example_priv 43 ''r03'' [''read''] 730 True,
      example_priv 52 ''r12'' [''read''] 720 False,
      example_priv 50 ''r10'' [''read''] 700 False,
      example_priv 42 ''r02'' [''read''] 620 False,
      example_priv 41 ''r01'' [''read''] 510 False,
      example_priv 44 ''r04'' [''read''] 440 False,
      example_priv 46 ''r06'' [''read''] 360 False,
      example_priv 47 ''r07'' [''read''] 270 False,
      example_priv 49 ''r09'' [''read''] 190 False,
      example_priv 51 ''r11'' [''read''] 110 True]"
    by (simp add: example_history_def example_priv_def After_def)
  have gen: "GenerateRPT example_claims example_identity example_minted
     \<in> set (snd (Audit_mint ?e example_identity example_claims (Some example_token) ''res-c''))"
    by (simp add: Audit_mint_def srt sorted) (simp add: example_defs mint_defs)
  have list: "ListPrivileges ?e (TokenID example_token) = Inr example_history"
    by simp
  have ordered: "sorted_wrt (\<lambda>a b. \<not> After (ExpiryTime b) (ExpiryTime a))
                   (sort_Slice ?e ?lt example_history)"
    by (simp add: srt sorted) (simp add: example_priv_def After_def)
  have perm: "mset (sort_Slice ?e ?lt example_history) = mset example_history"
    by (simp only: srt mset_insertion_sort)
  have scen: "length example_history = 12 \<and> GetRPTTokenMaxPermissions ?e = 5
                \<and> ''res-c'' \<notin> ResourceID ` set example_history"
    by (simp add: example_defs)
  from C2_mint_permission_list [OF gen list ordered perm] scen
  have "length example_minted = 5
        \<and> map ResourceSetID (tl example_minted)
            = map ResourceID (take 4 (sort_Slice ?e ?lt example_history))"
    by blast
  moreover have "map ResourceID (take 4 (insertion_sort ?lt example_history))
                   = [''r08'', ''r05'', ''r03'', ''r12'']"
    by (simp add: sorted) (simp add: example_priv_def)
  ultimately show ?thesis
    using gen by (simp add: srt)
qed

subsection \<open>The bound on the permission list\<close>

lemma Audit_migrate_length:
  "Audit_migrate e i r xs perms privs = Inr (perms', privs')
   \<Longrightarrow> int (length perms') \<le> max (int (length perms)) (GetRPTTokenMaxPermissions e)"
proof (induction xs arbitrary: perms privs)
  case Nil
  then show ?case by simp
next
  case (Cons x xs)
  show ?case
  proof (cases "int (length perms) \<ge> GetRPTTokenMaxPermissions e")
    case True
    with Cons.prems show ?thesis by simp
  next
    case False
    from Cons.prems False obtain perms1 privs1 where
      step: "Audit_migrate e i r xs perms1 privs1 = Inr (perms', privs')"
      and len: "length perms1 \<le> Suc (length perms)"
      by (auto split: if_splits sum.splits)
    from Cons.IH [OF step]
    have "int (length perms') \<le> max (int (length perms1)) (GetRPTTokenMaxPermissions e)" .
    with len False show ?thesis
      by linarith
  qed
qed

lemma Exchange_migrate_length:
  "Exchange_migrate e i t xs perms privs = Inr (perms', privs')
   \<Longrightarrow> int (length perms') \<le> max (int (length perms)) (GetRPTTokenMaxPermissions e)"
proof (induction xs arbitrary: perms privs)
  case Nil
  then show ?case by simp
next
  case (Cons x xs)
  show ?case
  proof (cases "int (length perms) \<ge> GetRPTTokenMaxPermissions e")
    case True
    with Cons.prems show ?thesis by simp
  next
    case False
    from Cons.prems False obtain perms1 privs1 where
      step: "Exchange_migrate e i t xs perms1 privs1 = Inr (perms', privs')"
      and len: "length perms1 \<le> Suc (length perms)"
      by (auto split: if_splits sum.splits)
    from Cons.IH [OF step]
    have "int (length perms') \<le> max (int (length perms1)) (GetRPTTokenMaxPermissions e)" .
    with len False show ?thesis
      by linarith
  qed
qed

lemma Audit_mint_GenerateRPT:
  assumes "GenerateRPT c i ps \<in> set (snd (Audit_mint e idn cl tok r))"
  shows "int (length ps) \<le> max 1 (GetRPTTokenMaxPermissions e)"
proof -
  from assms obtain pc where pc: "CachedPrivileges e (ID idn) r = Inr pc"
    by (cases "CachedPrivileges e (ID idn) r") (auto simp: Audit_mint_def)
  let ?first = "\<lparr>ResourceSetID = r, Scopes = ScopesAsArray pc, Expiry = Unix (ExpiryTime pc)\<rparr>"
  let ?priv = "\<lparr>PrivTokenID = uuid_Nil, PrivPrivilegeCacheID = PrivilegeCacheID pc\<rparr>"
  show ?thesis
  proof (cases tok)
    case None
    with assms pc have "GenerateRPT c i ps \<in> set (snd (Audit_generate e idn cl [?first] [?priv]))"
      by (simp add: Audit_mint_def)
    then have "ps = [?first]"
      by (rule Audit_generate_GenerateRPT)
    then show ?thesis
      by simp
  next
    case (Some t)
    with assms pc obtain olds where olds: "ListPrivileges e (TokenID t) = Inr olds"
      by (cases "ListPrivileges e (TokenID t)") (auto simp: Audit_mint_def)
    let ?sorted = "sort_Slice e (\<lambda>a b. After (ExpiryTime a) (ExpiryTime b)) olds"
    from assms pc Some olds obtain perms' privs' where
      mig: "Audit_migrate e (ID idn) r ?sorted [?first] [?priv] = Inr (perms', privs')"
      and gen: "GenerateRPT c i ps \<in> set (snd (Audit_generate e idn cl perms' privs'))"
      by (cases "Audit_migrate e (ID idn) r ?sorted [?first] [?priv]")
         (auto simp: Audit_mint_def Let_def)
    from gen have "ps = perms'"
      by (rule Audit_generate_GenerateRPT)
    with Audit_migrate_length [OF mig] show ?thesis
      by simp
  qed
qed

lemma Audit_loaded_cases:
  "snd (Audit_loaded e idn cl tid tok r) = []
   \<or> snd (Audit_loaded e idn cl tid tok r) = [SaveToken (tok\<lparr>Status := 0\<rparr>)]
   \<or> Audit_loaded e idn cl tid tok r = Audit_mint e idn cl (Some tok) r"
  by (simp add: Audit_loaded_def Let_def split: sum.splits option.splits prod.splits)

lemma Audit_cases:
  "snd (Audit e idn s r) = []
   \<or> (\<exists>cl. Audit e idn s r = Audit_mint e idn cl None r)
   \<or> (\<exists>cl tid tok. Audit e idn s r = Audit_loaded e idn cl tid tok r)"
  by (auto simp: Audit_def split: sum.splits option.splits error.splits)

lemma Audit_GenerateRPT:
  assumes "GenerateRPT c i ps \<in> set (snd (Audit e idn s r))"
  shows "int (length ps) \<le> max 1 (GetRPTTokenMaxPermissions e)"
proof -
  from Audit_cases [of e idn s r] assms
  consider cl where "GenerateRPT c i ps \<in> set (snd (Audit_mint e idn cl None r))"
    | cl tid tok where "GenerateRPT c i ps \<in> set (snd (Audit_loaded e idn cl tid tok r))"
    by fastforce
  then show ?thesis
  proof cases
    case 1
    then show ?thesis by (rule Audit_mint_GenerateRPT)
  next
    case 2
    with Audit_loaded_cases [of e idn cl tid tok r]
    have "GenerateRPT c i ps \<in> set (snd (Audit_mint e idn cl (Some tok) r))"
      by auto
    then show ?thesis by (rule Audit_mint_GenerateRPT)
  qed
qed

lemma Exchange_permissions_length:
  assumes "Exchange_permissions e idn rpt = Inr (ps, tp)"
  shows "int (length ps) \<le> max 0 (GetRPTTokenMaxPermissions e)"
proof -
  from assms consider "ps = []"
    | t olds where "Exchange_migrate e (ID idn) t
        (sort_Slice e (\<lambda>a b. After (ExpiryTime a) (ExpiryTime b)) olds) [] [] = Inr (ps, tp)"
    by (auto simp: Exchange_permissions_def split: sum.splits if_splits)
  then show ?thesis
  proof cases
    case 1
    then show ?thesis by simp
  next
    case 2
    from Exchange_migrate_length [OF 2] show ?thesis
      by simp
  qed
qed

lemma Exchange_register_GenerateUserToken:
  assumes "GenerateUserToken r i ps \<in> set (snd (Exchange_register e rt idn perms privs))"
  shows "ps = perms"
  using assms
  by (auto simp: Exchange_register_def
      split: sum.splits prod.splits outcome.splits option.splits if_splits
      dest: RegisterToken_events)

lemma Exchange_resolved_GenerateUserToken:
  assumes "GenerateUserToken r i ps \<in> set (snd (Exchange_resolved e rt rpt idn))"
  shows "int (length ps) \<le> max 0 (GetRPTTokenMaxPermissions e)"
proof -
  let ?taken = "case idn of None \<Rightarrow> Inr ([], [])
                | Some idn' \<Rightarrow> if rpt \<noteq> [] then Exchange_permissions e idn' rpt
                               else Inr ([], [])"
  from assms obtain perms privs where taken: "?taken = Inr (perms, privs)"
    and gen: "GenerateUserToken r i ps \<in> set (snd (Exchange_register e rt idn perms privs))"
    by (cases ?taken)
       (auto simp: Exchange_resolved_def
          split: if_splits sum.splits prod.splits outcome.splits)
  from gen have ps: "ps = perms"
    by (rule Exchange_register_GenerateUserToken)
  from taken have "int (length perms) \<le> max 0 (GetRPTTokenMaxPermissions e)"
    by (auto split: option.splits if_splits dest: Exchange_permissions_length)
  with ps show ?thesis
    by simp
qed

lemma ExchangeRefreshToken_events:
  assumes "ev \<in> set (snd (ExchangeRefreshToken e rt rpt))"
  shows "(\<exists>tkn. ev \<in> set (snd (ValidateToken e tkn)))
       \<or> (\<exists>idn. ev \<in> set (snd (Exchange_resolved e rt rpt idn)))"
proof (cases "Parse e rt")
  case (Inl err)
  with assms show ?thesis
    by (simp add: ExchangeRefreshToken_def)
next
  case (Inr tkn)
  obtain res evs where val: "ValidateToken e tkn = (res, evs)"
    by (cases "ValidateToken e tkn")
  obtain r0 evs0 where none: "Exchange_resolved e rt rpt None = (r0, evs0)"
    by (cases "Exchange_resolved e rt rpt None")
  have some: "\<exists>r1 evs1. Exchange_resolved e rt rpt (Some idn) = (r1, evs1)" for idn
    by (cases "Exchange_resolved e rt rpt (Some idn)") simp
  from assms Inr val none
  have "ev \<in> set evs \<or> ev \<in> set evs0
        \<or> (\<exists>idn. ev \<in> set (snd (Exchange_resolved e rt rpt (Some idn))))"
    by (auto simp: ExchangeRefreshToken_def
        split: sum.splits prod.splits outcome.splits option.splits if_splits)
       (metis snd_conv)
  moreover from val have "evs = snd (ValidateToken e tkn)"
    by simp
  moreover from none have "evs0 = snd (Exchange_resolved e rt rpt None)"
    by simp
  ultimately show ?thesis
    by blast
qed

lemma ExchangeRefreshToken_GenerateUserToken:
  assumes "GenerateUserToken r i ps \<in> set (snd (ExchangeRefreshToken e rt rpt))"
  shows "int (length ps) \<le> max 0 (GetRPTTokenMaxPermissions e)"
proof -
  from ExchangeRefreshToken_events [OF assms]
  consider tkn where "GenerateUserToken r i ps \<in> set (snd (ValidateToken e tkn))"
    | idn where "GenerateUserToken r i ps \<in> set (snd (Exchange_resolved e rt rpt idn))"
    by blast
  then show ?thesis
  proof cases
    case 1
    from ValidateToken_events [OF 1] show ?thesis
      by simp
  next
    case 2
    then show ?thesis
      by (rule Exchange_resolved_GenerateUserToken)
  qed
qed

text \<open>
  C1, as stated, fails for a configured maximum of 0: Audit puts the permission of the
  requested resource into the list before the limit is looked at, so the token it mints
  and returns carries one permission.
\<close>

theorem C1_counterexample:
  "GetRPTTokenMaxPermissions (example_env\<lparr>GetRPTTokenMaxPermissions := 0\<rparr>) = 0
   \<and> Audit (example_env\<lparr>GetRPTTokenMaxPermissions := 0\<rparr>) example_identity ''rpt'' ''res-c''
     = (Returns (Some ''signed''),
        [GenerateRPT example_claims example_identity
           [\<lparr>ResourceSetID = ''res-c'', Scopes = [''admin''], Expiry = 350\<rparr>],
         SignRPT \<lparr>Raw = ''unsigned'', Claims = Map.empty\<rparr>,
         CreateToken \<lparr>TokenID = 3, IdentityID = 7, Status = 0, TokenType = TOKEN_TYPE_RPT,
                       TokenExpiryTime = 6000000000000\<rparr>,
         CreateTokenPrivilege \<lparr>PrivTokenID = 3, PrivPrivilegeCacheID = 33\<rparr>])
   \<and> length [\<lparr>ResourceSetID = ''res-c'', Scopes = [''admin''], Expiry = 350\<rparr>] = 1"
  by (simp add: Audit_def Audit_loaded_def resourceExistsIn_def example_defs status_defs
      mint_defs)

text \<open>
  C1, amended: every permission list that Audit passes to the token manager's generation
  step has at most \<open>max 1 M\<close> entries and every list that ExchangeRefreshToken passes
  has at most \<open>max 0 M\<close> entries, where \<open>M\<close> is the configured maximum; so the
  bound \<open>M\<close> holds for both whenever \<open>M\<close> is at least 1.  This covers every call,
  whether or not the minted token is returned in the end.
\<close>

theorem C1_permission_bound:
  "(\<forall>c i ps. GenerateRPT c i ps \<in> set (snd (Audit e identity tokenString resourceID))
       \<longrightarrow> int (length ps) \<le> max 1 (GetRPTTokenMaxPermissions e))
   \<and> (\<forall>r i ps. GenerateUserToken r i ps
                  \<in> set (snd (ExchangeRefreshToken e refreshToken rptToken))
       \<longrightarrow> int (length ps) \<le> max 0 (GetRPTTokenMaxPermissions e))"
  using Audit_GenerateRPT ExchangeRefreshToken_GenerateUserToken by blast

theorem C1_witness:
  "GenerateRPT example_claims example_identity example_minted
     \<in> set (snd (Audit (example_env\<lparr>ListPrivileges := (\<lambda>t. Inr example_history)\<rparr>)
                   example_identity ''rpt'' ''res-c''))
   \<and> int (length example_minted) \<le> 5
   \<and> GenerateUserToken ''refresh'' (Some example_identity)
       [\<lparr>ResourceSetID = ''res-b'', Scopes = [''read''], Expiry = 250\<rparr>,
        \<lparr>ResourceSetID = ''res-a'', Scopes = [''read'', ''write''], Expiry = 100\<rparr>]
     \<in> set (snd (ExchangeRefreshToken example_env ''refresh'' ''rpt''))
   \<and> int (length [\<lparr>ResourceSetID = ''res-b'', Scopes = [''read''], Expiry = 250\<rparr>,
                   \<lparr>ResourceSetID = ''res-a'', Scopes = [''read'', ''write''], Expiry = 100\<rparr>])
       \<le> 5"
proof -
  let ?e = "example_env\<lparr>ListPrivileges := (\<lambda>t. Inr example_history)\<rparr>"
  let ?q = "[\<lparr>ResourceSetID = ''res-b'', Scopes = [''read''], Expiry = 250\<rparr>,
             \<lparr>ResourceSetID = ''res-a'', Scopes = [''read'', ''write''], Expiry = 100\<rparr>]"
  have a: "GenerateRPT example_claims example_identity example_minted
     \<in> set (snd (Audit ?e example_identity ''rpt'' ''res-c''))"
    by (simp add: Audit_def Audit_loaded_def resourceExistsIn_def example_defs status_defs
        mint_defs)
  have b: "GenerateUserToken ''refresh'' (Some example_identity) ?q
     \<in> set (snd (ExchangeRefreshToken example_env ''refresh'' ''rpt''))"
    by (simp add: ExchangeRefreshToken_def Exchange_resolved_def Exchange_permissions_def
        Exchange_register_def ValidateToken_def ValidateToken_touch_def example_defs
        status_defs mint_defs)
  have m: "GetRPTTokenMaxPermissions ?e = 5" "GetRPTTokenMaxPermissions example_env = 5"
    by (simp_all add: example_env_def)
  from C1_permission_bound [of ?e example_identity "''rpt''" "''res-c''"] a m(1)
  have 1: "int (length example_minted) \<le> 5"
    by fastforce
  from C1_permission_bound [where e = example_env and refreshToken = "''refresh''"
      and rptToken = "''rpt''"] b m(2)
  have 2: "int (length ?q) \<le> 5"
    by fastforce
  from a 1 b 2 show ?thesis
    by blast
qed

end
